theory Spec2Isabelle
  imports Complex_Main "HOL-Library.AList"
begin

section \<open>Conventions of the embedding\<close>

text \<open>
  The Python sources compute on floats. The embedding reads every float as a real number
  (exact arithmetic); where the source tests \<^verbatim>\<open>pd.isna\<close>, the value is a
  \<open>real option\<close> and \<open>None\<close> stands for NaN. A Python exception is a value
  \<open>Inl e\<close> of a sum type. A dict is an association list with pairwise different keys, in
  insertion order (\<open>AList.update\<close> overwrites in place or appends, as a dict does).
\<close>

type_synonym ticker = string

datatype error = ZeroDivisionError | ValueError | IndexError | KeyError | OverflowError

text \<open>Python's \<^verbatim>\<open>int(x)\<close> on a float truncates towards zero.\<close>

definition py_int :: "real \<Rightarrow> int" where
  "py_int x = (if 0 \<le> x then \<lfloor>x\<rfloor> else \<lceil>x\<rceil>)"

section \<open>Portfolio (backtester.py)\<close>

text \<open>One entry of \<^verbatim>\<open>self.holdings\<close>: \<^verbatim>\<open>{'shares': int, 'entry_price': float}\<close>.\<close>

record holding =
  shares :: int
  entry_price :: real

text \<open>
  The fields of \<^verbatim>\<open>class Portfolio\<close>. The field \<^verbatim>\<open>history\<close> is initialised to
  the empty list and never read or written again; it is left out.
\<close>

record Portfolio =
  initial_capital :: real
  cash :: real
  holdings :: "(ticker \<times> holding) list"
  total_dividends :: real
  total_isk_tax :: real
  peak_value :: real

definition init_Portfolio :: "real \<Rightarrow> Portfolio" where
  "init_Portfolio c =
     \<lparr>initial_capital = c, cash = c, holdings = [], total_dividends = 0,
      total_isk_tax = 0, peak_value = c\<rparr>"

text \<open>\<^verbatim>\<open>current_prices.get(ticker, 0)\<close>\<close>

definition get_or_zero :: "(ticker \<rightharpoonup> real) \<Rightarrow> ticker \<Rightarrow> real" where
  "get_or_zero m t = (case m t of None \<Rightarrow> 0 | Some v \<Rightarrow> v)"

definition get_total_value :: "Portfolio \<Rightarrow> (ticker \<rightharpoonup> real) \<Rightarrow> real" where
  "get_total_value p current_prices =
     (let holdings_value =
            sum_list (map (\<lambda>(t, h). of_int (shares h) * get_or_zero current_prices t) (holdings p))
      in cash p + holdings_value)"

definition get_holdings_count :: "Portfolio \<Rightarrow> nat" where
  "get_holdings_count p = length (holdings p)"

text \<open>
  \<^verbatim>\<open>buy\<close>: the two early \<^verbatim>\<open>return False\<close>, then the update of the holding and of the
  cash. \<^verbatim>\<open>amount / price\<close> raises for a zero price, and so does the average for a zero
  share total; both come before any assignment.
\<close>

definition buy :: "Portfolio \<Rightarrow> ticker \<Rightarrow> real \<Rightarrow> real \<Rightarrow> real \<Rightarrow> error + (bool \<times> Portfolio)" where
  "buy p t amount price transaction_cost =
     (let cost_with_fees = amount * (1 + transaction_cost) in
      if cost_with_fees > cash p then Inr (False, p)
      else if price = 0 then Inl ZeroDivisionError
      else
        let n = py_int (amount / price) in
        if n \<le> 0 then Inr (False, p)
        else
          let actual_cost = of_int n * price * (1 + transaction_cost) in
          (case map_of (holdings p) t of
             Some old \<Rightarrow>
               (let old_shares = shares old;
                    old_value = of_int old_shares * entry_price old;
                    new_value = of_int n * price;
                    total_shares = old_shares + n
                in if total_shares = 0 then Inl ZeroDivisionError
                   else
                     let avg_price = (old_value + new_value) / of_int total_shares in
                     Inr (True,
                          p\<lparr>holdings := AList.update t \<lparr>shares = total_shares, entry_price = avg_price\<rparr> (holdings p),
                            cash := cash p - actual_cost\<rparr>))
           | None \<Rightarrow>
               Inr (True,
                    p\<lparr>holdings := AList.update t \<lparr>shares = n, entry_price = price\<rparr> (holdings p),
                      cash := cash p - actual_cost\<rparr>)))"

definition sell :: "Portfolio \<Rightarrow> ticker \<Rightarrow> real \<Rightarrow> real \<Rightarrow> bool \<times> Portfolio" where
  "sell p t price transaction_cost =
     (case map_of (holdings p) t of
        None \<Rightarrow> (False, p)
      | Some h \<Rightarrow>
          (let proceeds = of_int (shares h) * price * (1 - transaction_cost)
           in (True, p\<lparr>cash := cash p + proceeds, holdings := AList.delete t (holdings p)\<rparr>)))"

text \<open>
  \<^verbatim>\<open>sell_all\<close> walks a copy of the key list and sells what has a quote.
\<close>

definition sell_all :: "Portfolio \<Rightarrow> (ticker \<rightharpoonup> real) \<Rightarrow> real \<Rightarrow> Portfolio" where
  "sell_all p current_prices transaction_cost =
     foldl (\<lambda>q t. case current_prices t of
                     None \<Rightarrow> q
                   | Some price \<Rightarrow> snd (sell q t price transaction_cost))
           p (map fst (holdings p))"

text \<open>
  Calendar dates (\<^verbatim>\<open>datetime\<close> at midnight, as \<^verbatim>\<open>strptime(..., "%Y-%m-%d")\<close> gives
  them), compared field by field.
\<close>

datatype date = Date (year: nat) (month: nat) (day: nat)

definition date_lt :: "date \<Rightarrow> date \<Rightarrow> bool" where
  "date_lt a b =
     (year a < year b \<or> (year a = year b \<and> (month a < month b \<or> (month a = month b \<and> day a < day b))))"

definition date_le :: "date \<Rightarrow> date \<Rightarrow> bool" where
  "date_le a b = (date_lt a b \<or> a = b)"

text \<open>
  \<^verbatim>\<open>collect_dividends\<close>: a dividend series is the list of its (date, amount) entries.
  The time zone adjustment of the source changes no comparison and is left out.
\<close>

definition collect_dividends ::
  "Portfolio \<Rightarrow> (ticker \<rightharpoonup> (date \<times> real) list) \<Rightarrow> date \<Rightarrow> date \<Rightarrow> real \<times> Portfolio" where
  "collect_dividends p dividend_data start_date end_date =
     foldl (\<lambda>acc (t, h).
              case dividend_data t of
                None \<Rightarrow> acc
              | Some dividends \<Rightarrow>
                  foldl (\<lambda>(period_dividends, q) (div_date, div_amount).
                           let div_received = of_int (shares h) * div_amount
                           in (period_dividends + div_received,
                               q\<lparr>cash := cash q + div_received,
                                 total_dividends := total_dividends q + div_received\<rparr>))
                        acc
                        (filter (\<lambda>(d, a). date_lt start_date d \<and> date_le d end_date) dividends))
           (0, p) (holdings p)"

text \<open>The tax parameters by year, \<^verbatim>\<open>(tax_rate, tax_free_amount)\<close>.\<close>

definition isk_parameters :: "int \<Rightarrow> real \<times> real" where
  "isk_parameters yr = (if yr \<ge> 2026 then (0.01065, 300000) else (0.01, 150000))"

definition pay_isk_tax :: "Portfolio \<Rightarrow> real \<Rightarrow> int \<Rightarrow> real \<times> Portfolio" where
  "pay_isk_tax p portfolio_value yr =
     (let (tax_rate, tax_free_amount) = isk_parameters yr in
      if portfolio_value \<le> tax_free_amount then (0, p)
      else
        let taxable_amount = portfolio_value - tax_free_amount;
            isk_tax = taxable_amount * tax_rate
        in (isk_tax, p\<lparr>cash := cash p - isk_tax, total_isk_tax := total_isk_tax p + isk_tax\<rparr>))"

text \<open>
  \<^verbatim>\<open>get_drawdown_adjustment\<close> returns \<^verbatim>\<open>(drawdown_pct, size_multiplier, risk_level)\<close>.
  The peak is assigned before the division, so the state is returned beside the result
  also when the division raises.
\<close>

definition get_drawdown_adjustment ::
  "Portfolio \<Rightarrow> (ticker \<rightharpoonup> real) \<Rightarrow> (error + (real \<times> real \<times> string)) \<times> Portfolio" where
  "get_drawdown_adjustment p current_prices =
     (let current_value = get_total_value p current_prices;
          p' = (if current_value > peak_value p then p\<lparr>peak_value := current_value\<rparr> else p)
      in if peak_value p' = 0 then (Inl ZeroDivisionError, p')
         else
           let drawdown_pct = ((peak_value p' - current_value) / peak_value p') * 100 in
           if drawdown_pct < 5 then (Inr (drawdown_pct, 1.0, ''NORMAL''), p')
           else if drawdown_pct < 10 then (Inr (drawdown_pct, 0.85, ''CAUTIOUS''), p')
           else if drawdown_pct < 15 then (Inr (drawdown_pct, 0.70, ''REDUCE''), p')
           else if drawdown_pct < 20 then (Inr (drawdown_pct, 0.60, ''DEFENSIVE''), p')
           else (Inr (drawdown_pct, 0.50, ''MAX_DEFENSIVE''), p'))"

text \<open>
  The states a Portfolio created with capital \<open>c\<close> can be in: the constructor's state, and
  what any method makes of a reachable state. A \<^verbatim>\<open>buy\<close> that raises assigns nothing.
\<close>

inductive reachable :: "real \<Rightarrow> Portfolio \<Rightarrow> bool" for c :: real where
  r_init: "reachable c (init_Portfolio c)"
| r_buy: "reachable c p \<Longrightarrow> buy p t amount price tc = Inr (b, p') \<Longrightarrow> reachable c p'"
| r_sell: "reachable c p \<Longrightarrow> sell p t price tc = (b, p') \<Longrightarrow> reachable c p'"
| r_sell_all: "reachable c p \<Longrightarrow> reachable c (sell_all p prices tc)"
| r_dividends: "reachable c p \<Longrightarrow> collect_dividends p dd s e = (x, p') \<Longrightarrow> reachable c p'"
| r_tax: "reachable c p \<Longrightarrow> pay_isk_tax p v yr = (x, p') \<Longrightarrow> reachable c p'"
| r_drawdown: "reachable c p \<Longrightarrow> get_drawdown_adjustment p prices = (r, p') \<Longrightarrow> reachable c p'"

text \<open>A price dict without any quote.\<close>

definition no_quotes :: "ticker \<rightharpoonup> real" where
  "no_quotes = Map.empty"

section \<open>Rebalance dates (backtester.py)\<close>

text \<open>
  The calendar of \<^verbatim>\<open>datetime\<close>: years 1 to 9999, the Gregorian month lengths.
  \<^verbatim>\<open>strptime\<close> and \<^verbatim>\<open>strftime\<close> with \<^verbatim>\<open>"%Y-%m-%d"\<close> translate between the
  valid dates and their strings one to one; the embedding works on the dates, and a
  string that names no valid date is a \<open>ValueError\<close>.
\<close>

definition is_leap :: "nat \<Rightarrow> bool" where
  "is_leap y = (y mod 4 = 0 \<and> (if y mod 100 = 0 then y mod 400 = 0 else True))"

definition days_in_month :: "nat \<Rightarrow> nat \<Rightarrow> nat" where
  "days_in_month y m =
     (if m = 2 then (if is_leap y then 29 else 28)
      else if m = 4 \<or> m = 6 \<or> m = 9 \<or> m = 11 then 30 else 31)"

definition valid_date :: "date \<Rightarrow> bool" where
  "valid_date d =
     (1 \<le> year d \<and> year d \<le> 9999 \<and> 1 \<le> month d \<and> month d \<le> 12
      \<and> 1 \<le> day d \<and> day d \<le> days_in_month (year d) (month d))"

text \<open>
  \<^verbatim>\<open>current.replace(year=y, month=m)\<close> keeps the day and raises \<open>ValueError\<close> when the
  day does not exist in the new month.
\<close>

definition date_replace :: "date \<Rightarrow> nat \<Rightarrow> nat \<Rightarrow> error + date" where
  "date_replace d y m =
     (if valid_date (Date y m (day d)) then Inr (Date y m (day d)) else Inl ValueError)"

definition next_day :: "date \<Rightarrow> date" where
  "next_day d =
     (if day d < days_in_month (year d) (month d) then Date (year d) (month d) (day d + 1)
      else if month d < 12 then Date (year d) (month d + 1) 1
      else Date (year d + 1) 1 1)"

text \<open>\<^verbatim>\<open>current + timedelta(days=n)\<close>, which raises beyond the year 9999.\<close>

definition add_days :: "date \<Rightarrow> nat \<Rightarrow> error + date" where
  "add_days d n =
     (let d' = (next_day ^^ n) d in if year d' \<le> 9999 then Inr d' else Inl OverflowError)"

text \<open>
  The \<^verbatim>\<open>while current <= end\<close> loop of \<^verbatim>\<open>generate_rebalance_dates\<close>. A frequency
  other than the two named ones leaves \<^verbatim>\<open>current\<close> as it is, and the loop does not end:
  the result is then \<open>None\<close>.
\<close>

partial_function (option) rebalance_loop ::
  "string \<Rightarrow> date \<Rightarrow> date \<Rightarrow> date list \<Rightarrow> (error + date list) option" where
  "rebalance_loop frequency end_d current dates =
     (if date_le current end_d then
        (if frequency = ''monthly'' then
           (case (if month current = 12 then date_replace current (year current + 1) 1
                  else date_replace current (year current) (month current + 1)) of
              Inl e \<Rightarrow> Some (Inl e)
            | Inr c \<Rightarrow> rebalance_loop frequency end_d c (dates @ [current]))
         else if frequency = ''weekly'' then
           (case add_days current 7 of
              Inl e \<Rightarrow> Some (Inl e)
            | Inr c \<Rightarrow> rebalance_loop frequency end_d c (dates @ [current]))
         else rebalance_loop frequency end_d current (dates @ [current]))
      else Some (Inr dates))"

definition generate_rebalance_dates :: "date \<Rightarrow> date \<Rightarrow> string \<Rightarrow> (error + date list) option" where
  "generate_rebalance_dates start_date end_date frequency =
     (if valid_date start_date \<and> valid_date end_date
      then rebalance_loop frequency end_date start_date []
      else Some (Inl ValueError))"

section \<open>Performance metrics (backtester.py)\<close>

text \<open>One entry of the equity curve, as \<^verbatim>\<open>backtest_strategy\<close> appends it.\<close>

record equity_point =
  ep_date :: date
  ep_value :: real
  ep_cash :: real
  ep_holdings :: nat
  ep_dividends :: real

text \<open>
  \<^verbatim>\<open>Series.pct_change()\<close>: NaN for the first entry, then the relative change. The curve
  values are taken to be other than zero (numpy divides by zero into inf or NaN).
\<close>

definition pct_change :: "real list \<Rightarrow> real option list" where
  "pct_change vs =
     map (\<lambda>i. if i = 0 then None else Some (vs ! i / vs ! (i - 1) - 1)) [0..<length vs]"

fun dropna :: "real option list \<Rightarrow> real list" where
  "dropna [] = []"
| "dropna (None # xs) = dropna xs"
| "dropna (Some x # xs) = x # dropna xs"

text \<open>
  \<^verbatim>\<open>Series.std()\<close>: the sample standard deviation (divisor n - 1) of the entries that
  are not NaN, and NaN when there are fewer than two of them.
\<close>

definition series_std :: "real option list \<Rightarrow> real option" where
  "series_std xs =
     (let ys = dropna xs; n = length ys in
      if n < 2 then None
      else
        let m = sum_list ys / of_nat n
        in Some (sqrt (sum_list (map (\<lambda>y. (y - m)\<^sup>2) ys) / of_nat (n - 1))))"

definition cummax :: "real list \<Rightarrow> real list" where
  "cummax vs = map (\<lambda>i. fold max (take i vs) (vs ! i)) [0..<length vs]"

text \<open>
  The entries of the result of \<^verbatim>\<open>calculate_performance_metrics\<close> that are arithmetic on
  the curve. The CAGR entries and the Sharpe ratio built on them are real powers of the
  value ratio over the years between the two date arguments; they are left out, and the
  two date arguments with them. \<open>None\<close> is the empty dict returned for an empty curve.
\<close>

record performance =
  total_return :: real
  price_return :: real
  dividend_return :: real
  max_drawdown :: real
  volatility :: "real option"
  final_value :: real

definition calculate_performance_metrics ::
  "equity_point list \<Rightarrow> real \<Rightarrow> real \<Rightarrow> real \<Rightarrow> performance option" where
  "calculate_performance_metrics equity_curve initial_cap total_divs total_tax =
     (if equity_curve = [] then None
      else
        let vals = map ep_value equity_curve;
            final = last vals;
            peak = cummax vals;
            drawdown = map (\<lambda>(v, pk). (v - pk) / pk * 100) (zip vals peak);
            returns = pct_change vals;
            vol = map_option (\<lambda>s. s * sqrt 12) (series_std returns)
        in Some \<lparr>total_return = ((final - initial_cap) / initial_cap) * 100,
                  price_return = ((final - total_divs - initial_cap) / initial_cap) * 100,
                  dividend_return = (total_divs / initial_cap) * 100,
                  max_drawdown = fold min (tl drawdown) (hd drawdown),
                  volatility = map_option (\<lambda>v. v * 100) vol,
                  final_value = final\<rparr>)"

text \<open>
  The call at the end of \<^verbatim>\<open>backtest_strategy\<close>: the curve recorded at the run's rebalance
  dates and the Portfolio's totals are passed on; the run's \<^verbatim>\<open>rebalance_frequency\<close> is
  in scope there and is not.
\<close>

definition backtest_metrics ::
  "string \<Rightarrow> equity_point list \<Rightarrow> real \<Rightarrow> Portfolio \<Rightarrow> performance option" where
  "backtest_metrics rebalance_frequency equity_curve initial_cap portfolio =
     calculate_performance_metrics equity_curve initial_cap
       (total_dividends portfolio) (total_isk_tax portfolio)"

text \<open>A curve of four weekly points: up 10 percent, down 10 percent, up 10 percent.\<close>

definition weekly_curve :: "equity_point list" where
  "weekly_curve =
     map (\<lambda>(d, v). \<lparr>ep_date = Date 2024 1 d, ep_value = v, ep_cash = v,
                     ep_holdings = 0, ep_dividends = 0\<rparr>)
         [(1, 1000), (8, 1100), (15, 990), (22, 1089)]"

section \<open>Price frames and indicators (ma_calculator.py)\<close>

text \<open>
  Where numpy divides by zero it gives an infinity or NaN and goes on. The RSI is the one
  place where the sources rely on it, so its values are floats with these three extra
  values. The sign of a zero divisor is not modelled: the RSI reads both infinities alike.
\<close>

datatype npfloat = Fin real | PInf | NInf | NaN

definition np_div :: "real \<Rightarrow> real \<Rightarrow> npfloat" where
  "np_div x y =
     (if y = 0 then (if x = 0 then NaN else if 0 < x then PInf else NInf) else Fin (x / y))"

text \<open>
  A DataFrame of daily bars: the date index and the price columns, and the columns the
  indicator functions add, \<open>None\<close> while a column is absent. All columns of a frame have
  the length of its index. The columns Open and Volume are read by none of the functions
  below and are left out. The three MACD columns are added together and kept together.
\<close>

record dataframe =
  index :: "date list"
  High :: "real list"
  Low :: "real list"
  Close :: "real list"
  MA50 :: "real option list option"
  MA100 :: "real option list option"
  MA200 :: "real option list option"
  RSI :: "npfloat list option"
  MACD :: "(real list \<times> real list \<times> real list) option"

text \<open>\<^verbatim>\<open>Series.tail(k)\<close>\<close>

definition tail :: "nat \<Rightarrow> 'a list \<Rightarrow> 'a list" where
  "tail k xs = drop (length xs - k) xs"

text \<open>
  \<^verbatim>\<open>Series.rolling(window=w).mean()\<close>: NaN until the window is full, then the mean of
  the last \<open>w\<close> entries.
\<close>

definition rolling_mean :: "nat \<Rightarrow> real list \<Rightarrow> real option list" where
  "rolling_mean w xs =
     map (\<lambda>i. if i + 1 < w then None
               else Some (sum_list (take w (drop (i + 1 - w) xs)) / of_nat w))
         [0..<length xs]"

definition calculate_ma :: "real list \<Rightarrow> nat \<Rightarrow> real option list" where
  "calculate_ma prices window = rolling_mean window prices"

definition calculate_ma50_ma200 :: "dataframe \<Rightarrow> dataframe" where
  "calculate_ma50_ma200 df =
     df\<lparr>MA50 := Some (calculate_ma (Close df) 50),
        MA100 := Some (calculate_ma (Close df) 100),
        MA200 := Some (calculate_ma (Close df) 200)\<rparr>"

record crossover_info =
  crossed_below_ma200 :: bool
  crossed_above_ma200 :: bool
  current_position :: string
  distance_from_ma200 :: real
  golden_cross :: bool
  days_since_crossover :: "nat option"

text \<open>
  \<^verbatim>\<open>detect_crossover\<close>, on the three columns it reads (Close, MA50, MA200). The entry
  \<^verbatim>\<open>'ma50_above_ma200'\<close> of its result is the field \<open>golden_cross\<close>.
\<close>

definition detect_crossover ::
  "real list \<Rightarrow> real option list \<Rightarrow> real option list \<Rightarrow> nat \<Rightarrow> crossover_info" where
  "detect_crossover closes ma50_col ma200_col lookback =
     (let result = \<lparr>crossed_below_ma200 = False, crossed_above_ma200 = False,
                     current_position = ''unknown'', distance_from_ma200 = 0,
                     golden_cross = False, days_since_crossover = None\<rparr>
      in if length closes < lookback + 1 then result
         else
           let recent_close = tail (lookback + 1) closes;
               recent_ma200 = tail (lookback + 1) ma200_col;
               recent_ma50 = tail (lookback + 1) ma50_col
           in if list_all (\<lambda>x. x = None) recent_ma200 then result
              else
                let current_price = last recent_close;
                    current_ma50 = last recent_ma50
                in (case last recent_ma200 of
                      None \<Rightarrow> result
                    | Some current_ma200 \<Rightarrow>
                        foldl (\<lambda>res i.
                                 case (recent_ma200 ! i, recent_ma200 ! (i + 1)) of
                                   (Some prev_ma200, Some next_ma200) \<Rightarrow>
                                     (let prev_price = recent_close ! i;
                                          next_price = recent_close ! (i + 1);
                                          res1 = (if prev_price \<ge> prev_ma200 \<and> next_price < next_ma200
                                                  then res\<lparr>crossed_below_ma200 := True,
                                                           days_since_crossover :=
                                                             Some (length recent_close - i - 2)\<rparr>
                                                  else res)
                                      in if prev_price \<le> prev_ma200 \<and> next_price > next_ma200
                                         then res1\<lparr>crossed_above_ma200 := True,
                                                   days_since_crossover :=
                                                     Some (length recent_close - i - 2)\<rparr>
                                         else res1)
                                 | _ \<Rightarrow> res)
                              (result\<lparr>current_position :=
                                        (if current_price > current_ma200 then ''above'' else ''below''),
                                      distance_from_ma200 :=
                                        ((current_price - current_ma200) / current_ma200) * 100,
                                      golden_cross :=
                                        (case current_ma50 of
                                           None \<Rightarrow> False
                                         | Some m50 \<Rightarrow> m50 > current_ma200)\<rparr>)
                              [0..<length recent_close - 1]))"

definition calculate_ma200_slope :: "real option list \<Rightarrow> nat \<Rightarrow> real" where
  "calculate_ma200_slope ma200_col lookback =
     (if length ma200_col < lookback then 0
      else
        let recent_ma200 = tail lookback ma200_col in
        if list_all (\<lambda>x. x = None) recent_ma200 then 0
        else (case (hd recent_ma200, last recent_ma200) of
                (Some ma200_start, Some ma200_end) \<Rightarrow> (ma200_end - ma200_start) / of_nat lookback
              | _ \<Rightarrow> 0))"

text \<open>
  \<^verbatim>\<open>calculate_rsi\<close>. \<^verbatim>\<open>diff()\<close> is NaN at the first bar, and \<^verbatim>\<open>where\<close> puts 0
  wherever its condition is false, also on NaN; so the gains and the losses have no NaN.
\<close>

definition series_diff :: "real list \<Rightarrow> real option list" where
  "series_diff xs =
     map (\<lambda>i. if i = 0 then None else Some (xs ! i - xs ! (i - 1))) [0..<length xs]"

definition rsi_gain :: "real list \<Rightarrow> real list" where
  "rsi_gain closes =
     map (\<lambda>d. case d of None \<Rightarrow> 0 | Some x \<Rightarrow> if x > 0 then x else 0) (series_diff closes)"

definition rsi_loss :: "real list \<Rightarrow> real list" where
  "rsi_loss closes =
     map (\<lambda>d. - (case d of None \<Rightarrow> 0 | Some x \<Rightarrow> if x < 0 then x else 0)) (series_diff closes)"

text \<open>\<^verbatim>\<open>100 - (100 / (1 + rs))\<close> on a float that may be infinite or NaN.\<close>

fun rsi_of_rs :: "npfloat \<Rightarrow> npfloat" where
  "rsi_of_rs (Fin r) =
     (case np_div 100 (1 + r) of
        Fin q \<Rightarrow> Fin (100 - q)
      | PInf \<Rightarrow> NInf
      | NInf \<Rightarrow> PInf
      | NaN \<Rightarrow> NaN)"
| "rsi_of_rs PInf = Fin 100"
| "rsi_of_rs NInf = Fin 100"
| "rsi_of_rs NaN = NaN"

definition calculate_rsi :: "real list \<Rightarrow> nat \<Rightarrow> npfloat list" where
  "calculate_rsi closes period =
     (let avg_gain = rolling_mean period (rsi_gain closes);
          avg_loss = rolling_mean period (rsi_loss closes);
          rs = map (\<lambda>(g, l). case (g, l) of
                                 (Some a, Some b) \<Rightarrow> np_div a b
                               | _ \<Rightarrow> NaN)
                   (zip avg_gain avg_loss)
      in map rsi_of_rs rs)"

text \<open>
  \<^verbatim>\<open>Series.ewm(span=s, adjust=False).mean()\<close>: seeded with the first entry, then
  \<open>(1 - \<alpha>) * previous + \<alpha> * x\<close> with \<open>\<alpha> = 2 / (s + 1)\<close>.
\<close>

fun ewm_from :: "real \<Rightarrow> real \<Rightarrow> real list \<Rightarrow> real list" where
  "ewm_from \<alpha> prev [] = []"
| "ewm_from \<alpha> prev (x # xs) = ((1 - \<alpha>) * prev + \<alpha> * x) # ewm_from \<alpha> ((1 - \<alpha>) * prev + \<alpha> * x) xs"

definition ewm_mean :: "nat \<Rightarrow> real list \<Rightarrow> real list" where
  "ewm_mean s xs =
     (case xs of [] \<Rightarrow> [] | x # rest \<Rightarrow> x # ewm_from (2 / (of_nat s + 1)) x rest)"

definition calculate_macd ::
  "real list \<Rightarrow> nat \<Rightarrow> nat \<Rightarrow> nat \<Rightarrow> real list \<times> real list \<times> real list" where
  "calculate_macd closes fast slow signal =
     (let ema_fast = ewm_mean fast closes;
          ema_slow = ewm_mean slow closes;
          macd_line = map (\<lambda>(a, b). a - b) (zip ema_fast ema_slow);
          signal_line = ewm_mean signal macd_line;
          histogram = map (\<lambda>(a, b). a - b) (zip macd_line signal_line)
      in (macd_line, signal_line, histogram))"

record macd_info =
  bullish_crossover :: bool
  bearish_crossover :: bool
  macd_positive :: bool
  histogram_rising :: bool

text \<open>
  \<^verbatim>\<open>detect_macd_crossover\<close>, on the MACD columns of the frame. The columns hold no NaN,
  so the \<^verbatim>\<open>pd.isna\<close> test in its loop never skips a step.
\<close>

definition detect_macd_crossover ::
  "(real list \<times> real list \<times> real list) option \<Rightarrow> nat \<Rightarrow> macd_info" where
  "detect_macd_crossover macd_cols lookback =
     (let result = \<lparr>bullish_crossover = False, bearish_crossover = False,
                     macd_positive = False, histogram_rising = False\<rparr>
      in case macd_cols of
           None \<Rightarrow> result
         | Some (macd_col, signal_col, hist_col) \<Rightarrow>
             if length macd_col < lookback + 1 then result
             else
               let recent_macd = tail (lookback + 1) macd_col;
                   recent_signal = tail (lookback + 1) signal_col;
                   current_macd = last recent_macd;
                   hist_recent = tail 3 (tail (lookback + 1) hist_col);
                   result1 = result\<lparr>macd_positive := current_macd > 0\<rparr>;
                   result2 = (if length hist_recent \<ge> 2
                              then result1\<lparr>histogram_rising :=
                                     hist_recent ! (length hist_recent - 1)
                                       > hist_recent ! (length hist_recent - 2)\<rparr>
                              else result1)
               in foldl (\<lambda>res i.
                           let prev_macd = recent_macd ! i;
                               prev_signal = recent_signal ! i;
                               next_macd = recent_macd ! (i + 1);
                               next_signal = recent_signal ! (i + 1);
                               res1 = (if prev_macd \<le> prev_signal \<and> next_macd > next_signal
                                       then res\<lparr>bullish_crossover := True\<rparr> else res)
                           in if prev_macd \<ge> prev_signal \<and> next_macd < next_signal
                              then res1\<lparr>bearish_crossover := True\<rparr> else res1)
                        result2 [0..<length recent_macd - 1])"

text \<open>\<^verbatim>\<open>get_52_week_high\<close>; the maximum of an empty column is NaN.\<close>

fun running_max :: "real \<Rightarrow> real list \<Rightarrow> real" where
  "running_max m [] = m"
| "running_max m (x # xs) = running_max (max m x) xs"

definition series_max :: "real list \<Rightarrow> real option" where
  "series_max xs = (case xs of [] \<Rightarrow> None | x # rest \<Rightarrow> Some (running_max x rest))"

definition get_52_week_high :: "real list \<Rightarrow> real option" where
  "get_52_week_high highs =
     (if length highs < 252 then series_max highs else series_max (tail 252 highs))"

section \<open>Fundamentals (fundamentals.py)\<close>

text \<open>
  What \<^verbatim>\<open>yfinance\<close> reports for a ticker when it is asked, at the time of the run: the
  entries of \<^verbatim>\<open>stock.info\<close> that \<^verbatim>\<open>fetch_fundamentals\<close> reads, each of them possibly
  missing.
\<close>

record yf_info =
  revenueGrowth :: "real option"
  profitMargins :: "real option"
  returnOnEquity :: "real option"
  debtToEquity :: "real option"
  trailingPE :: "real option"
  forwardPE :: "real option"
  dividendYield :: "real option"

record fundamentals =
  revenue_growth :: "real option"
  profit_margin :: "real option"
  roe :: "real option"
  debt_to_equity :: "real option"
  pe_ratio :: "real option"
  forward_pe :: "real option"
  dividend_yield :: "real option"
  pays_dividend :: bool
  quality_score :: real

definition revenue_points :: "real option \<Rightarrow> real" where
  "revenue_points rev_growth =
     (case rev_growth of
        None \<Rightarrow> 0
      | Some g \<Rightarrow> if g > 0.15 then 8 else if g > 0.10 then 6 else if g > 0.05 then 4
                   else if g > 0 then 2 else 0)"

definition margin_points :: "real option \<Rightarrow> real" where
  "margin_points margin =
     (case margin of
        None \<Rightarrow> 0
      | Some m \<Rightarrow> if m > 0.15 then 6 else if m > 0.10 then 4 else if m > 0.05 then 2 else 0)"

definition roe_points :: "real option \<Rightarrow> real" where
  "roe_points r =
     (case r of
        None \<Rightarrow> 0
      | Some x \<Rightarrow> if x > 0.20 then 6 else if x > 0.15 then 4 else if x > 0.10 then 2 else 0)"

definition debt_points :: "real option \<Rightarrow> real" where
  "debt_points d =
     (case d of None \<Rightarrow> 0 | Some x \<Rightarrow> if x < 100 then 2 else if x < 200 then 1 else 0)"

text \<open>\<^verbatim>\<open>calculate_quality_score\<close>: the five blocks of the source, added up in its order.\<close>

definition calculate_quality_score :: "fundamentals \<Rightarrow> real" where
  "calculate_quality_score f =
     0 + revenue_points (revenue_growth f) + margin_points (profit_margin f)
       + roe_points (roe f) + (if pays_dividend f then 3 else 0)
       + debt_points (debt_to_equity f)"

text \<open>
  \<^verbatim>\<open>fetch_fundamentals\<close>: the source of the data is the first argument; \<open>None\<close> from it
  is a failed request, which the \<^verbatim>\<open>except\<close> clause turns into the default record.
\<close>

definition fetch_fundamentals :: "(ticker \<Rightarrow> yf_info option) \<Rightarrow> ticker \<Rightarrow> fundamentals" where
  "fetch_fundamentals src t =
     (let fund = \<lparr>revenue_growth = None, profit_margin = None, roe = None,
                   debt_to_equity = None, pe_ratio = None, forward_pe = None,
                   dividend_yield = None, pays_dividend = False, quality_score = 0\<rparr>
      in case src t of
           None \<Rightarrow> fund
         | Some yi \<Rightarrow>
             (let fund1 = fund\<lparr>revenue_growth := revenueGrowth yi,
                               profit_margin := profitMargins yi,
                               roe := returnOnEquity yi,
                               debt_to_equity := debtToEquity yi,
                               pe_ratio := trailingPE yi,
                               forward_pe := forwardPE yi,
                               dividend_yield := dividendYield yi,
                               pays_dividend :=
                                 (case dividendYield yi of None \<Rightarrow> False | Some y \<Rightarrow> y > 0)\<rparr>
              in fund1\<lparr>quality_score := calculate_quality_score fund1\<rparr>))"

section \<open>The composite score (screener.py)\<close>

definition calculate_stock_return :: "real list \<Rightarrow> nat \<Rightarrow> real" where
  "calculate_stock_return closes days =
     (if length closes < days then 0
      else
        let current_price = last closes;
            past_price = closes ! (length closes - days)
        in ((current_price - past_price) / past_price) * 100)"

text \<open>
  The dict \<^verbatim>\<open>metrics\<close>. The last four entries are keys that only the indicator block
  adds: \<open>None\<close> or \<open>False\<close> while the key is absent.
\<close>

record score_metrics =
  m_ticker :: ticker
  m_score :: real
  m_price :: real
  m_ma50 :: "real option"
  m_ma100 :: "real option"
  m_ma200 :: "real option"
  m_distance_ma200 :: real
  m_ma50_above_ma200 :: bool
  m_triple_ma_aligned :: bool
  m_ma200_rising :: bool
  m_relative_strength_3m :: real
  m_relative_strength_6m :: real
  m_price_vs_52w_high :: real
  m_52w_high :: real
  m_death_cross :: bool
  m_days_since_death_cross :: "nat option"
  m_revenue_growth :: "real option"
  m_profit_margin :: "real option"
  m_roe :: "real option"
  m_quality_score :: real
  m_rsi :: "npfloat option"
  m_rsi_overbought :: bool
  m_macd :: "macd_info option"
  m_macd_bearish_cross :: bool

definition init_metrics :: "ticker \<Rightarrow> score_metrics" where
  "init_metrics t =
     \<lparr>m_ticker = t, m_score = 0, m_price = 0, m_ma50 = Some 0, m_ma100 = Some 0,
      m_ma200 = Some 0, m_distance_ma200 = 0, m_ma50_above_ma200 = False,
      m_triple_ma_aligned = False, m_ma200_rising = False, m_relative_strength_3m = 0,
      m_relative_strength_6m = 0, m_price_vs_52w_high = 0, m_52w_high = 0,
      m_death_cross = False, m_days_since_death_cross = None, m_revenue_growth = None,
      m_profit_margin = None, m_roe = None, m_quality_score = 0, m_rsi = None,
      m_rsi_overbought = False, m_macd = None, m_macd_bearish_cross = False\<rparr>"

text \<open>
  Python's \<^verbatim>\<open>round(x, 1)\<close>: to the nearest tenth, a tie to the even one.
\<close>

definition round_half_even :: "real \<Rightarrow> int" where
  "round_half_even x =
     (let f = \<lfloor>x\<rfloor>; d = x - of_int f
      in if d < 1 / 2 then f else if d > 1 / 2 then f + 1 else if even f then f else f + 1)"

definition py_round1 :: "real \<Rightarrow> real" where
  "py_round1 x = of_int (round_half_even (x * 10)) / 10"

text \<open>
  The triple-MA block: the points, and the two flags it sets. \<open>ma100\<close> is \<open>None\<close> when
  the column is absent or its value is NaN; both take the dual-MA branch.
\<close>

definition ma_alignment :: "real option \<Rightarrow> real option \<Rightarrow> real \<Rightarrow> real \<times> bool \<times> bool" where
  "ma_alignment ma50 ma100 ma200 =
     (case ma50 of
        None \<Rightarrow> (0, False, False)
      | Some m50 \<Rightarrow>
          (case ma100 of
             Some m100 \<Rightarrow>
               if m50 > m100 \<and> m100 > ma200 then (15, True, True)
               else if m50 > ma200 then (10, True, False)
               else (0, False, False)
           | None \<Rightarrow> if m50 > ma200 then (10, True, False) else (0, False, False)))"

text \<open>Comparisons of a float with a number; every comparison with NaN is false.\<close>

fun np_le :: "real \<Rightarrow> npfloat \<Rightarrow> bool" where
  "np_le a (Fin x) = (a \<le> x)"
| "np_le a PInf = True"
| "np_le a NInf = False"
| "np_le a NaN = False"

fun np_lt :: "real \<Rightarrow> npfloat \<Rightarrow> bool" where
  "np_lt a (Fin x) = (a < x)"
| "np_lt a PInf = True"
| "np_lt a NInf = False"
| "np_lt a NaN = False"

fun np_ge :: "real \<Rightarrow> npfloat \<Rightarrow> bool" where
  "np_ge a (Fin x) = (a \<ge> x)"
| "np_ge a PInf = False"
| "np_ge a NInf = True"
| "np_ge a NaN = False"

fun np_gt :: "real \<Rightarrow> npfloat \<Rightarrow> bool" where
  "np_gt a (Fin x) = (a > x)"
| "np_gt a PInf = False"
| "np_gt a NInf = True"
| "np_gt a NaN = False"

text \<open>The RSI block: the points, and whether it sets \<^verbatim>\<open>rsi_overbought\<close>.\<close>

definition rsi_points :: "npfloat \<Rightarrow> real \<times> bool" where
  "rsi_points current_rsi =
     (if current_rsi = NaN then (0, False)
      else if np_le 50 current_rsi \<and> np_ge 60 current_rsi then (10, False)
      else if np_lt 60 current_rsi \<and> np_ge 70 current_rsi then (7, False)
      else if np_le 40 current_rsi \<and> np_gt 50 current_rsi then (5, False)
      else if np_lt 70 current_rsi then (-5, True)
      else (0, False))"

text \<open>The MACD block: the points of the \<^verbatim>\<open>if/elif\<close> chain, less the bearish penalty.\<close>

definition macd_points :: "macd_info \<Rightarrow> real" where
  "macd_points mi =
     (if bullish_crossover mi then 10
      else if macd_positive mi \<and> histogram_rising mi then 7
      else if macd_positive mi then 4
      else 0)
     - (if bearish_crossover mi then 10 else 0)"

text \<open>
  \<^verbatim>\<open>calculate_stock_score\<close>. The body is one \<^verbatim>\<open>try\<close> block whose \<^verbatim>\<open>except\<close> returns the
  dict as it stands: an empty frame or a frame without the MA50 or MA200 column fails at
  the first reads, before any entry is set. Prices are taken to be positive (numpy divides
  by a zero average or a zero past price into inf or NaN).
\<close>

definition calculate_stock_score ::
  "(ticker \<Rightarrow> yf_info option) \<Rightarrow> ticker \<Rightarrow> dataframe \<Rightarrow> real \<times> real \<Rightarrow> bool \<Rightarrow> bool \<Rightarrow> score_metrics" where
  "calculate_stock_score src t df benchmark_returns include_fundamentals use_indicator_confirmation =
     (let metrics = init_metrics t in
      if Close df = [] then metrics
      else
        (case (MA50 df, MA200 df) of
           (Some ma50_col, Some ma200_col) \<Rightarrow>
             (let current_price = last (Close df);
                  ma50 = last ma50_col;
                  ma100 = (case MA100 df of None \<Rightarrow> None | Some c \<Rightarrow> last c);
                  ma200 = last ma200_col;
                  metrics1 = metrics\<lparr>m_price := current_price, m_ma50 := ma50, m_ma200 := ma200,
                                      m_ma100 := (case MA100 df of None \<Rightarrow> Some 0 | Some c \<Rightarrow> last c)\<rparr>
              in case ma200 of
                   None \<Rightarrow> metrics1
                 | Some m200 \<Rightarrow>
                     (let distance = ((current_price - m200) / m200) * 100 in
                      if \<not> current_price > m200
                      then metrics1\<lparr>m_distance_ma200 := distance, m_score := 0\<rparr>
                      else
                        let (align_pts, above, triple) = ma_alignment ma50 ma100 m200;
                            slope = calculate_ma200_slope ma200_col 20;
                            crossover = detect_crossover (Close df) ma50_col ma200_col 7;
                            (bench_3m, bench_6m) = benchmark_returns;
                            rs_3m = calculate_stock_return (Close df) 60 - bench_3m;
                            rs_3m_points = min 15 (max 0 (rs_3m * 0.5));
                            rs_6m = calculate_stock_return (Close df) 120 - bench_6m;
                            rs_6m_points = min 15 (max 0 (rs_6m * 0.5));
                            distance_points = min 15 (distance * 1.5);
                            high_52w = get_52_week_high (High df);
                            high_ok = (case high_52w of None \<Rightarrow> False | Some h \<Rightarrow> h > 0);
                            price_vs_high = current_price / the high_52w;
                            high_points = (if high_ok then min 15 (price_vs_high * 15) else 0);
                            fund = fetch_fundamentals src t;
                            quality_points = (if include_fundamentals then quality_score fund else 0);
                            rsi_col = (case RSI df of None \<Rightarrow> calculate_rsi (Close df) 14 | Some c \<Rightarrow> c);
                            macd_cols = (case MACD df of
                                           None \<Rightarrow> calculate_macd (Close df) 12 26 9
                                         | Some c \<Rightarrow> c);
                            current_rsi = last rsi_col;
                            (rsi_pts, overbought) = rsi_points current_rsi;
                            mi = detect_macd_crossover (Some macd_cols) 5;
                            indicator_points =
                              (if use_indicator_confirmation then rsi_pts + macd_points mi else 0);
                            score = 0 + 20 + align_pts + (if slope > 0 then 10 else 0)
                                    - (if crossed_below_ma200 crossover then 20 else 0)
                                    + rs_3m_points + rs_6m_points + distance_points + high_points
                                    + quality_points + indicator_points
                        in metrics1\<lparr>
                             m_distance_ma200 := distance,
                             m_ma50_above_ma200 := above,
                             m_triple_ma_aligned := triple,
                             m_ma200_rising := (slope > 0),
                             m_death_cross := crossed_below_ma200 crossover,
                             m_days_since_death_cross :=
                               (if crossed_below_ma200 crossover
                                then days_since_crossover crossover else None),
                             m_relative_strength_3m := rs_3m,
                             m_relative_strength_6m := rs_6m,
                             m_price_vs_52w_high := (if high_ok then price_vs_high else 0),
                             m_52w_high := (if high_ok then the high_52w else 0),
                             m_revenue_growth :=
                               (if include_fundamentals then revenue_growth fund else None),
                             m_profit_margin :=
                               (if include_fundamentals then profit_margin fund else None),
                             m_roe := (if include_fundamentals then roe fund else None),
                             m_quality_score :=
                               (if include_fundamentals then quality_score fund else 0),
                             m_rsi := (if use_indicator_confirmation \<and> current_rsi \<noteq> NaN
                                       then Some current_rsi else None),
                             m_rsi_overbought := (use_indicator_confirmation \<and> overbought),
                             m_macd := (if use_indicator_confirmation then Some mi else None),
                             m_macd_bearish_cross :=
                               (use_indicator_confirmation \<and> bearish_crossover mi),
                             m_score := py_round1 score\<rparr>))
         | _ \<Rightarrow> metrics))"

section \<open>A price series for the examples\<close>

text \<open>
  A stock that closes at 100 for 193 days, falls to 85, recovers to 108 and slides back to
  100, crossing below its 200-day average and back above it in the last three bars. The
  daily high is one above the close, except on the first day, which traded up to 200.
\<close>

definition recovery_tail :: "real list" where
  "recovery_tail = [85, 85, 85, 89, 95, 101, 104, 107, 108, 107, 106, 105, 102, 100, 99, 99, 100]"

definition recovery_closes :: "real list" where
  "recovery_closes = replicate 193 100 @ recovery_tail"

definition recovery_index :: "date list" where
  "recovery_index =
     map (\<lambda>i. Date 2023 (1 + i div 28) (1 + i mod 28)) [0..<210]"

definition recovery_frame :: dataframe where
  "recovery_frame =
     \<lparr>index = recovery_index,
      High = 200 # replicate 192 101 @ map (\<lambda>c. c + 1) recovery_tail,
      Low = map (\<lambda>c. c - 1) recovery_closes,
      Close = recovery_closes,
      MA50 = None, MA100 = None, MA200 = None, RSI = None, MACD = None\<rparr>"

text \<open>The MACD line of the example over its last 17 bars (it is 0 before).\<close>

definition recovery_macd_tail :: "real list" where
  "recovery_macd_tail =
     map (\<lambda>(a, b). a - b)
         (zip (ewm_from (2 / 13) 100 recovery_tail) (ewm_from (2 / 27) 100 recovery_tail))"

text \<open>A source of fundamentals whose every request fails.\<close>

definition no_fundamentals :: "ticker \<Rightarrow> yf_info option" where
  "no_fundamentals t = None"

definition positive_prices :: "dataframe \<Rightarrow> bool" where
  "positive_prices df = list_all (\<lambda>c. 0 < c) (Close df)"

section \<open>The screening pass of the backtest (data_fetcher.py, backtester.py)\<close>

text \<open>
  What the data provider answers at the time of the run: for a ticker, its whole price
  history (\<^verbatim>\<open>period='max'\<close>, so also the bars after the date a backtest step looks at),
  and its fundamentals as they are reported now. \<open>None\<close> is a failed request.
\<close>

record provider =
  history :: "ticker \<Rightarrow> dataframe option"
  info :: "ticker \<Rightarrow> yf_info option"

text \<open>\<^verbatim>\<open>fetch_stock_data(ticker, period='max')\<close>: an empty frame is answered as None.\<close>

definition fetch_stock_data :: "provider \<Rightarrow> ticker \<Rightarrow> dataframe option" where
  "fetch_stock_data prov t =
     (case history prov t of
        None \<Rightarrow> None
      | Some df \<Rightarrow> if Close df = [] then None else Some df)"

text \<open>Row selection by a boolean mask, \<^verbatim>\<open>df[mask]\<close>, on one column.\<close>

definition filter_rows :: "bool list \<Rightarrow> 'a list \<Rightarrow> 'a list" where
  "filter_rows keep xs = map snd (filter fst (zip keep xs))"

text \<open>\<^verbatim>\<open>df[df.index <= as_of_date]\<close>\<close>

definition rows_upto :: "date \<Rightarrow> dataframe \<Rightarrow> dataframe" where
  "rows_upto as_of_date df =
     (let keep = map (\<lambda>d. date_le d as_of_date) (index df) in
      \<lparr>index = filter_rows keep (index df),
       High = filter_rows keep (High df),
       Low = filter_rows keep (Low df),
       Close = filter_rows keep (Close df),
       MA50 = map_option (filter_rows keep) (MA50 df),
       MA100 = map_option (filter_rows keep) (MA100 df),
       MA200 = map_option (filter_rows keep) (MA200 df),
       RSI = map_option (filter_rows keep) (RSI df),
       MACD = map_option (\<lambda>(m, s, h). (filter_rows keep m, filter_rows keep s, filter_rows keep h))
                         (MACD df)\<rparr>)"

text \<open>
  \<^verbatim>\<open>fetch_historical_snapshot\<close>: the dict from ticker to its frame up to the date, for
  the tickers with at least 200 bars.
\<close>

definition fetch_historical_snapshot ::
  "provider \<Rightarrow> ticker list \<Rightarrow> date \<Rightarrow> (ticker \<times> dataframe) list" where
  "fetch_historical_snapshot prov stocks as_of_date =
     foldl (\<lambda>stock_data t.
              case fetch_stock_data prov t of
                None \<Rightarrow> stock_data
              | Some df \<Rightarrow>
                  (let df' = rows_upto as_of_date df in
                   if length (Close df') \<ge> 200 then AList.update t df' stock_data
                   else stock_data))
           [] stocks"

definition calculate_return :: "real list \<Rightarrow> nat \<Rightarrow> real" where
  "calculate_return closes days =
     (if length closes < days then 0
      else ((last closes - closes ! (length closes - days)) / closes ! (length closes - days)) * 100)"

text \<open>
  \<^verbatim>\<open>screen_stocks_historical\<close>. The rows of its result are the metrics dicts, best
  score first. (\<^verbatim>\<open>sort_values\<close> leaves the order of equal scores open; here it is the
  order of the dict.)
\<close>

definition screen_stocks_historical ::
  "provider \<Rightarrow> (ticker \<times> dataframe) list \<Rightarrow> date \<Rightarrow> score_metrics list" where
  "screen_stocks_historical prov stock_data as_of_date =
     (let benchmark_returns =
            (case fetch_stock_data prov ''^OMX'' of
               None \<Rightarrow> (0, 0)
             | Some benchmark_data \<Rightarrow>
                 (let bd = rows_upto as_of_date benchmark_data
                  in (calculate_return (Close bd) 60, calculate_return (Close bd) 120)));
          results =
            filter (\<lambda>m. m_score m > 0)
              (map (\<lambda>(t, df). calculate_stock_score (info prov) t (calculate_ma50_ma200 df)
                                 benchmark_returns True False)
                   stock_data)
      in sort_key (\<lambda>m. - m_score m) (filter (\<lambda>m. m_distance_ma200 m > 0) results))"

text \<open>
  Steps 3 and 6 of one rebalance in \<^verbatim>\<open>backtest_strategy\<close>: the snapshot as of the
  rebalance date, and the screening of it.
\<close>

definition screening_pass :: "provider \<Rightarrow> ticker list \<Rightarrow> date \<Rightarrow> score_metrics list" where
  "screening_pass prov stocks rebal_date =
     screen_stocks_historical prov (fetch_historical_snapshot prov stocks rebal_date) rebal_date"

text \<open>
  Two answers of the provider for the example stock, as of 2023-08-14, the date of its
  last bar: one asked on that day, and one asked later, when two more bars exist and the
  company has reported strong figures.
\<close>

definition recovery_as_of :: date where
  "recovery_as_of = Date 2023 8 14"

definition provider_then :: provider where
  "provider_then =
     \<lparr>history = (\<lambda>t. if t = ''RECO.ST'' then Some recovery_frame else None),
      info = no_fundamentals\<rparr>"

definition later_frame :: dataframe where
  "later_frame =
     recovery_frame\<lparr>index := recovery_index @ [Date 2023 8 15, Date 2023 8 16],
                     High := High recovery_frame @ [131, 141],
                     Low := Low recovery_frame @ [99, 129],
                     Close := recovery_closes @ [130, 140]\<rparr>"

definition later_info :: yf_info where
  "later_info =
     \<lparr>revenueGrowth = Some 0.2, profitMargins = Some 0.2, returnOnEquity = Some 0.25,
      debtToEquity = Some 50, trailingPE = Some 15, forwardPE = Some 12,
      dividendYield = Some 0.03\<rparr>"

definition provider_later :: provider where
  "provider_later =
     \<lparr>history = (\<lambda>t. if t = ''RECO.ST'' then Some later_frame else None),
      info = (\<lambda>t. if t = ''RECO.ST'' then Some later_info else None)\<rparr>"

section \<open>Buying: the first scenario\<close>

text \<open>
  C2. A Portfolio with cash 100,000 buys for amount 25,000 at price 250 with cost rate
  0.0025. The claim gives the cash afterwards as 74,375.00; the purchase costs
  100 * 250 * 1.0025 = 25,062.50, so the cash afterwards is not 74,375.00.
\<close>

theorem buy_scenario_cash_not_74375:
  "buy (init_Portfolio 100000) ''VOLV-B.ST'' 25000 250 0.0025 \<noteq>
     Inr (True,
          (init_Portfolio 100000)
            \<lparr>holdings := [(''VOLV-B.ST'', \<lparr>shares = 100, entry_price = 250\<rparr>)],
             cash := 74375\<rparr>)"
  by (simp add: buy_def init_Portfolio_def py_int_def Let_def)

text \<open>
  C2, as the code computes it: the buy succeeds, the holding is 100 shares at average cost
  250, and the cash is 100,000 - 25,062.50 = 74,937.50.
\<close>

theorem buy_scenario:
  "buy (init_Portfolio 100000) ''VOLV-B.ST'' 25000 250 0.0025 =
     Inr (True,
          (init_Portfolio 100000)
            \<lparr>holdings := [(''VOLV-B.ST'', \<lparr>shares = 100, entry_price = 250\<rparr>)],
             cash := 74937.5\<rparr>)"
  by (simp add: buy_def init_Portfolio_def py_int_def Let_def)

section \<open>Rejected trades\<close>

lemma py_int_le0: "py_int x \<le> 0 \<longleftrightarrow> \<lfloor>x\<rfloor> \<le> 0"
  unfolding py_int_def by (auto simp: floor_le_iff ceiling_le_iff)

lemma buy_cases:
  "buy p t amount price tc = Inr (b, p') \<Longrightarrow>
     (\<not> b \<and> p' = p) \<or>
     (b \<and> 0 < py_int (amount / price)
        \<and> cash p' = cash p - of_int (py_int (amount / price)) * price * (1 + tc)
        \<and> (\<exists>h. map_of (holdings p') t = Some h
              \<and> shares h = (case map_of (holdings p) t of None \<Rightarrow> 0 | Some old \<Rightarrow> shares old) + py_int (amount / price)))"
  by (auto simp: buy_def Let_def update_conv' split: if_splits option.splits)

text \<open>
  C8. A buy whose cost with fees exceeds the cash, or whose share count
  \<open>\<lfloor>amount / price\<rfloor>\<close> is not positive (for a price other than zero, where the quotient
  exists), returns false and leaves the Portfolio as it was; so does a sell of a ticker
  that is not held. Every buy that returns has either changed nothing or has both added
  the shares and debited their cost; every sell has either changed nothing or has both
  removed the position and credited the proceeds.
\<close>

theorem invalid_trades_rejected:
  "(amount * (1 + tc) > cash p \<longrightarrow> buy p t amount price tc = Inr (False, p))
   \<and> (price \<noteq> 0 \<and> \<lfloor>amount / price\<rfloor> \<le> 0 \<longrightarrow> buy p t amount price tc = Inr (False, p))
   \<and> (map_of (holdings p) t = None \<longrightarrow> sell p t price tc = (False, p))
   \<and> (\<forall>b p'. buy p t amount price tc = Inr (b, p') \<longrightarrow>
         (\<not> b \<and> p' = p) \<or>
         (b \<and> cash p' = cash p - of_int (py_int (amount / price)) * price * (1 + tc)
            \<and> (\<exists>h. map_of (holdings p') t = Some h
                 \<and> shares h = (case map_of (holdings p) t of None \<Rightarrow> 0 | Some old \<Rightarrow> shares old)
                              + py_int (amount / price))))
   \<and> (\<forall>b p'. sell p t price tc = (b, p') \<longrightarrow>
         (\<not> b \<and> p' = p) \<or>
         (b \<and> map_of (holdings p') t = None
            \<and> (\<exists>h. map_of (holdings p) t = Some h
                 \<and> cash p' = cash p + of_int (shares h) * price * (1 - tc))))"
proof (intro conjI allI impI)
  assume "cash p < amount * (1 + tc)"
  then show "buy p t amount price tc = Inr (False, p)"
    by (simp add: buy_def Let_def)
next
  assume "price \<noteq> 0 \<and> \<lfloor>amount / price\<rfloor> \<le> 0"
  then show "buy p t amount price tc = Inr (False, p)"
    by (simp add: buy_def Let_def py_int_le0)
next
  assume "map_of (holdings p) t = None"
  then show "sell p t price tc = (False, p)"
    by (simp add: sell_def)
next
  fix b p'
  assume "buy p t amount price tc = Inr (b, p')"
  from buy_cases [OF this]
  show "(\<not> b \<and> p' = p) \<or>
         (b \<and> cash p' = cash p - of_int (py_int (amount / price)) * price * (1 + tc)
            \<and> (\<exists>h. map_of (holdings p') t = Some h
                 \<and> shares h = (case map_of (holdings p) t of None \<Rightarrow> 0 | Some old \<Rightarrow> shares old)
                              + py_int (amount / price)))"
    by blast
next
  fix b p'
  assume "sell p t price tc = (b, p')"
  then show "(\<not> b \<and> p' = p) \<or>
         (b \<and> map_of (holdings p') t = None
            \<and> (\<exists>h. map_of (holdings p) t = Some h
                 \<and> cash p' = cash p + of_int (shares h) * price * (1 - tc)))"
    by (auto simp: sell_def Let_def delete_conv' split: option.splits)
qed

text \<open>
  The theorem at concrete trades: a buy beyond the cash, a buy of less than one share, a
  sell of a ticker that is not held, and a buy that goes through.
\<close>

theorem invalid_trades_rejected_witness:
  "(2000 * (1 + 0.0025) > cash (init_Portfolio 1000)
      \<and> buy (init_Portfolio 1000) ''ABB.ST'' 2000 250 0.0025 = Inr (False, init_Portfolio 1000))
   \<and> ((250::real) \<noteq> 0 \<and> \<lfloor>(100::real) / 250\<rfloor> \<le> 0
      \<and> buy (init_Portfolio 1000) ''ABB.ST'' 100 250 0.0025 = Inr (False, init_Portfolio 1000))
   \<and> (map_of (holdings (init_Portfolio 1000)) ''ABB.ST'' = None
      \<and> sell (init_Portfolio 1000) ''ABB.ST'' 250 0.0025 = (False, init_Portfolio 1000))
   \<and> (\<exists>p'. buy (init_Portfolio 1000) ''ABB.ST'' 500 250 0.0025 = Inr (True, p')
          \<and> cash p' = 498.75
          \<and> (\<exists>h. map_of (holdings p') ''ABB.ST'' = Some h \<and> shares h = 2))"
proof -
  have b: "buy (init_Portfolio 1000) ''ABB.ST'' 500 250 0.0025 =
        Inr (True, (init_Portfolio 1000)
                     \<lparr>holdings := [(''ABB.ST'', \<lparr>shares = 2, entry_price = 250\<rparr>)],
                      cash := 498.75\<rparr>)"
    by (simp add: buy_def init_Portfolio_def py_int_def Let_def)
  show ?thesis
    using invalid_trades_rejected [where amount = 2000 and tc = "0.0025" and p = "init_Portfolio 1000"
                                   and t = "''ABB.ST''" and price = 250]
          invalid_trades_rejected [where amount = 100 and tc = "0.0025" and p = "init_Portfolio 1000"
                                   and t = "''ABB.ST''" and price = 250]
          invalid_trades_rejected [where amount = 500 and tc = "0.0025" and p = "init_Portfolio 1000"
                                   and t = "''ABB.ST''" and price = 250]
          b
    by (simp add: init_Portfolio_def py_int_def)
qed

section \<open>The ISK tax\<close>

text \<open>
  C5. \<^verbatim>\<open>pay_isk_tax\<close> returns the tax \<open>max 0 (value - tax_free_amount) * tax_rate\<close> with
  the parameters of the year, debits exactly that from the cash (and adds it to the tax
  total), and charges nothing and changes nothing when the value is at most the tax-free
  amount. The parameters of 2026 are rate 0.01065 and threshold 300,000, and the tax on
  400,000 is 1,065.
\<close>

theorem pay_isk_tax_charges:
  "fst (pay_isk_tax p v yr) = max 0 (v - snd (isk_parameters yr)) * fst (isk_parameters yr)
   \<and> cash (snd (pay_isk_tax p v yr)) = cash p - fst (pay_isk_tax p v yr)
   \<and> total_isk_tax (snd (pay_isk_tax p v yr)) = total_isk_tax p + fst (pay_isk_tax p v yr)
   \<and> holdings (snd (pay_isk_tax p v yr)) = holdings p
   \<and> (v \<le> snd (isk_parameters yr) \<longrightarrow> pay_isk_tax p v yr = (0, p))
   \<and> isk_parameters 2026 = (0.01065, 300000)
   \<and> fst (pay_isk_tax p 400000 2026) = 1065"
  by (simp add: pay_isk_tax_def isk_parameters_def Let_def split: prod.splits)

text \<open>
  The theorem at a value of 250,000, below the threshold of 2026, and at 400,000, where
  the tax of 1,065 leaves 398,935 of the cash.
\<close>

theorem pay_isk_tax_charges_witness:
  "(250000::real) \<le> snd (isk_parameters 2026)
   \<and> pay_isk_tax (init_Portfolio 250000) 250000 2026 = (0, init_Portfolio 250000)
   \<and> fst (pay_isk_tax (init_Portfolio 400000) 400000 2026) = 1065
   \<and> cash (snd (pay_isk_tax (init_Portfolio 400000) 400000 2026)) = 398935"
  using pay_isk_tax_charges [of "init_Portfolio 250000" 250000 2026]
        pay_isk_tax_charges [of "init_Portfolio 400000" 400000 2026]
  by (simp add: isk_parameters_def init_Portfolio_def)

section \<open>Valuation\<close>

lemma holdings_sum_as_set:
  assumes "distinct (map fst xs)"
  shows "sum_list (map (\<lambda>(t, h). f t h) xs) = (\<Sum>t \<in> fst ` set xs. f t (the (map_of xs t)))"
proof -
  from assms have d: "distinct xs" by (simp add: distinct_map)
  from assms have inj: "inj_on fst (set xs)" by (simp add: distinct_map)
  have "sum_list (map (\<lambda>(t, h). f t h) xs) = (\<Sum>x \<in> set xs. (\<lambda>(t, h). f t h) x)"
    using d by (simp add: sum_list_distinct_conv_sum_set)
  also have "\<dots> = (\<Sum>x \<in> set xs. f (fst x) (the (map_of xs (fst x))))"
    using assms by (intro sum.cong) (auto simp: map_of_eq_Some_iff [THEN iffD2])
  also have "\<dots> = (\<Sum>t \<in> fst ` set xs. f t (the (map_of xs t)))"
    using inj by (simp add: sum.reindex)
  finally show ?thesis .
qed

lemma sum_list_delete_zero:
  "g t = 0 \<Longrightarrow>
   sum_list (map (\<lambda>(k, h). of_int (shares h) * g k) (AList.delete t xs)) =
   sum_list (map (\<lambda>(k, h). real_of_int (shares h) * g k) xs)"
  by (induction xs) (auto simp: AList.delete_eq)

text \<open>
  C10. The total value is the cash plus, over the held tickers (a dict: every ticker
  once), shares times the quoted price, with 0 for a ticker that has no quote. A held
  ticker without a quote adds exactly nothing: the value, and with it the drawdown
  result computed from it, are those of the Portfolio without that position.
\<close>

theorem get_total_value_missing_quote_is_zero:
  "(distinct (map fst (holdings p)) \<longrightarrow>
      get_total_value p prices =
        cash p + (\<Sum>t \<in> fst ` set (holdings p).
                    of_int (shares (the (map_of (holdings p) t))) *
                    (case prices t of None \<Rightarrow> 0 | Some v \<Rightarrow> v)))
   \<and> (prices t = None \<longrightarrow>
        get_total_value p prices = get_total_value (p\<lparr>holdings := AList.delete t (holdings p)\<rparr>) prices
        \<and> fst (get_drawdown_adjustment p prices) =
            fst (get_drawdown_adjustment (p\<lparr>holdings := AList.delete t (holdings p)\<rparr>) prices))"
proof (intro conjI impI)
  assume "distinct (map fst (holdings p))"
  from holdings_sum_as_set [OF this, of "\<lambda>t h. of_int (shares h) * get_or_zero prices t"]
  show "get_total_value p prices =
        cash p + (\<Sum>t \<in> fst ` set (holdings p).
                    of_int (shares (the (map_of (holdings p) t))) *
                    (case prices t of None \<Rightarrow> 0 | Some v \<Rightarrow> v))"
    by (simp add: get_total_value_def get_or_zero_def)
next
  assume a: "prices t = None"
  then have z: "get_or_zero prices t = 0" by (simp add: get_or_zero_def)
  show v: "get_total_value p prices = get_total_value (p\<lparr>holdings := AList.delete t (holdings p)\<rparr>) prices"
    using sum_list_delete_zero [of "get_or_zero prices" t "holdings p", OF z]
    by (simp add: get_total_value_def)
  show "fst (get_drawdown_adjustment p prices) =
            fst (get_drawdown_adjustment (p\<lparr>holdings := AList.delete t (holdings p)\<rparr>) prices)"
    unfolding get_drawdown_adjustment_def v [symmetric] by (simp add: Let_def)
qed

text \<open>
  The theorem at a Portfolio holding two tickers of which only one is quoted: 10 shares
  of the unquoted one are valued at nothing.
\<close>

theorem get_total_value_missing_quote_is_zero_witness:
  "distinct (map fst [(''ABB.ST'', \<lparr>shares = 10, entry_price = 300\<rparr>),
                      (''BOL.ST'', \<lparr>shares = 5, entry_price = 200\<rparr>)])
   \<and> [''BOL.ST'' \<mapsto> 210::real] ''ABB.ST'' = None
   \<and> get_total_value
        ((init_Portfolio 1000)\<lparr>holdings := [(''ABB.ST'', \<lparr>shares = 10, entry_price = 300\<rparr>),
                                             (''BOL.ST'', \<lparr>shares = 5, entry_price = 200\<rparr>)]\<rparr>)
        [''BOL.ST'' \<mapsto> 210] = 2050
   \<and> get_total_value
        ((init_Portfolio 1000)\<lparr>holdings := [(''BOL.ST'', \<lparr>shares = 5, entry_price = 200\<rparr>)]\<rparr>)
        [''BOL.ST'' \<mapsto> 210] = 2050"
  using get_total_value_missing_quote_is_zero
          [of "(init_Portfolio 1000)\<lparr>holdings := [(''ABB.ST'', \<lparr>shares = 10, entry_price = 300\<rparr>),
                                                    (''BOL.ST'', \<lparr>shares = 5, entry_price = 200\<rparr>)]\<rparr>"
              "[''BOL.ST'' \<mapsto> 210]" "''ABB.ST''"]
  by (simp add: get_total_value_def get_or_zero_def init_Portfolio_def)

section \<open>Drawdown\<close>

lemma buy_peak: "buy p t amount price tc = Inr (b, p') \<Longrightarrow> peak_value p' = peak_value p"
  by (auto simp: buy_def Let_def split: if_splits option.splits)

lemma sell_peak: "peak_value (snd (sell p t price tc)) = peak_value p"
  by (simp add: sell_def Let_def split: option.splits)

lemma sell_all_peak: "peak_value (sell_all p prices tc) = peak_value p"
proof -
  have "peak_value (foldl (\<lambda>q t. case prices t of None \<Rightarrow> q
                                   | Some price \<Rightarrow> snd (sell q t price tc)) q ts) = peak_value q"
    for q ts
    by (induction ts arbitrary: q) (simp_all add: sell_peak split: option.splits)
  then show ?thesis by (simp add: sell_all_def)
qed

lemma dividends_inner_peak:
  "peak_value (snd (foldl (\<lambda>(period_dividends, q) (div_date, div_amount).
                           let div_received = k * div_amount
                           in (period_dividends + div_received,
                               q\<lparr>cash := cash q + div_received,
                                 total_dividends := total_dividends q + div_received\<rparr>))
                        acc ds)) = peak_value (snd acc)"
  by (induction ds arbitrary: acc) (simp_all add: Let_def split: prod.splits)

lemma collect_dividends_peak: "peak_value (snd (collect_dividends p dd s e)) = peak_value p"
proof -
  have "peak_value (snd (foldl (\<lambda>acc (t, h).
              case dd t of
                None \<Rightarrow> acc
              | Some dividends \<Rightarrow>
                  foldl (\<lambda>(period_dividends, q) (div_date, div_amount).
                           let div_received = of_int (shares h) * div_amount
                           in (period_dividends + div_received,
                               q\<lparr>cash := cash q + div_received,
                                 total_dividends := total_dividends q + div_received\<rparr>))
                        acc
                        (filter (\<lambda>(d, a). date_lt s d \<and> date_le d e) dividends))
           acc hs)) = peak_value (snd acc)" for acc hs
    by (induction hs arbitrary: acc) (simp_all add: dividends_inner_peak split: option.splits prod.splits)
  from this [of "(0, p)" "holdings p"] show ?thesis
    unfolding collect_dividends_def by (simp only: snd_conv)
qed

lemma pay_isk_tax_peak: "peak_value (snd (pay_isk_tax p v yr)) = peak_value p"
  by (simp add: pay_isk_tax_def Let_def split: prod.splits)

lemma drawdown_peak_mono: "peak_value p \<le> peak_value (snd (get_drawdown_adjustment p prices))"
  by (simp add: get_drawdown_adjustment_def Let_def)

text \<open>No method lowers the peak, so it never falls below the initial capital.\<close>

lemma reachable_peak: "reachable c p \<Longrightarrow> c \<le> peak_value p"
proof (induction rule: reachable.induct)
  case r_init
  show ?case by (simp add: init_Portfolio_def)
next
  case (r_buy p t amount price tc b p')
  then show ?case by (simp add: buy_peak)
next
  case (r_sell p t price tc b p')
  then show ?case using sell_peak [of p t price tc] by simp
next
  case (r_sell_all p prices tc)
  then show ?case by (simp add: sell_all_peak)
next
  case (r_dividends p dd s e x p')
  then show ?case using collect_dividends_peak [of p dd s e] by simp
next
  case (r_tax p v yr x p')
  then show ?case using pay_isk_tax_peak [of p v yr] by simp
next
  case (r_drawdown p prices r p')
  then show ?case using drawdown_peak_mono [of p prices] by simp
qed

lemma drawdown_result:
  assumes "0 < peak_value p"
  shows "\<exists>dd m lvl p'. get_drawdown_adjustment p prices = (Inr (dd, m, lvl), p')
     \<and> peak_value p \<le> peak_value p'
     \<and> 0 \<le> dd
     \<and> m = (if dd < 5 then 1 else if dd < 10 then 0.85 else if dd < 15 then 0.7
             else if dd < 20 then 0.6 else 0.5)
     \<and> 0.5 \<le> m
     \<and> (dd = 12 \<longrightarrow> m = 0.7 \<and> lvl = ''REDUCE'')"
proof -
  define v where "v = get_total_value p prices"
  define pk where "pk = (if v > peak_value p then v else peak_value p)"
  have pk: "0 < pk" "v \<le> pk" "peak_value p \<le> pk" using assms by (auto simp: pk_def)
  then have dd: "0 \<le> (pk - v) / pk * 100" by simp
  show ?thesis
    using dd pk unfolding get_drawdown_adjustment_def Let_def v_def [symmetric]
    by (auto simp: pk_def)
qed

text \<open>
  C4. A Portfolio may be created with any capital. Created with capital 0, its first
  state has peak 0, and \<^verbatim>\<open>get_drawdown_adjustment\<close> raises \<open>ZeroDivisionError\<close> there
  instead of returning a drawdown. Created with capital -100 and charged a tax of 1, its
  value -101 lies below the peak -100, and the drawdown returned is -1, a negative one.
\<close>

theorem drawdown_fails_without_positive_capital:
  "reachable 0 (init_Portfolio 0)
   \<and> get_drawdown_adjustment (init_Portfolio 0) no_quotes
       = (Inl ZeroDivisionError, init_Portfolio 0)
   \<and> reachable (- 100) (snd (pay_isk_tax (init_Portfolio (- 100)) 150100 2025))
   \<and> get_drawdown_adjustment (snd (pay_isk_tax (init_Portfolio (- 100)) 150100 2025)) no_quotes
       = (Inr (- 1, 1, ''NORMAL''), snd (pay_isk_tax (init_Portfolio (- 100)) 150100 2025))"
proof -
  have t: "pay_isk_tax (init_Portfolio (- 100)) 150100 2025
           = (1, (init_Portfolio (- 100))\<lparr>cash := - 101, total_isk_tax := 1\<rparr>)"
    by (simp add: pay_isk_tax_def isk_parameters_def init_Portfolio_def Let_def)
  have r: "reachable (- 100) (snd (pay_isk_tax (init_Portfolio (- 100)) 150100 2025))"
    using r_tax [OF r_init t] by (simp add: t)
  show ?thesis
    unfolding t snd_conv
    using r [unfolded t snd_conv] r_init [of 0]
    by (simp add: get_drawdown_adjustment_def get_total_value_def init_Portfolio_def
          no_quotes_def Let_def)
qed

text \<open>
  C4, as the code computes it. On every state that a Portfolio created with a positive
  capital can reach,
  \<^verbatim>\<open>get_drawdown_adjustment\<close> returns a result; the peak afterwards is at least the peak
  before; the drawdown is not negative; the multiplier is the band value of the drawdown
  (1.00 below 5, 0.85 below 10, 0.70 below 15, 0.60 below 20, else 0.50) and never below
  0.50; a drawdown of 12 gives 0.70 and the level REDUCE.
\<close>

theorem drawdown_adjustment_bands:
  assumes "reachable c p" and "0 < c"
  shows "\<exists>dd m lvl p'. get_drawdown_adjustment p prices = (Inr (dd, m, lvl), p')
     \<and> peak_value p \<le> peak_value p'
     \<and> 0 \<le> dd
     \<and> m = (if dd < 5 then 1 else if dd < 10 then 0.85 else if dd < 15 then 0.7
             else if dd < 20 then 0.6 else 0.5)
     \<and> 0.5 \<le> m
     \<and> (dd = 12 \<longrightarrow> m = 0.7 \<and> lvl = ''REDUCE'')"
  using drawdown_result [of p prices] reachable_peak [OF assms(1)] assms(2) by simp

text \<open>
  The theorem on the state after buying 100 shares at 250 out of 100,000, with the share
  quoted at 130.625: the value is 88,000, the drawdown 12.
\<close>

theorem drawdown_adjustment_bands_witness:
  "reachable 100000
     ((init_Portfolio 100000)
        \<lparr>holdings := [(''VOLV-B.ST'', \<lparr>shares = 100, entry_price = 250\<rparr>)], cash := 74937.5\<rparr>)
   \<and> (0::real) < 100000
   \<and> get_drawdown_adjustment
       ((init_Portfolio 100000)
          \<lparr>holdings := [(''VOLV-B.ST'', \<lparr>shares = 100, entry_price = 250\<rparr>)], cash := 74937.5\<rparr>)
       [''VOLV-B.ST'' \<mapsto> 130.625]
     = (Inr (12, 0.7, ''REDUCE''),
        (init_Portfolio 100000)
          \<lparr>holdings := [(''VOLV-B.ST'', \<lparr>shares = 100, entry_price = 250\<rparr>)], cash := 74937.5\<rparr>)"
proof -
  have b: "buy (init_Portfolio 100000) ''VOLV-B.ST'' 25000 250 0.0025 =
     Inr (True,
          (init_Portfolio 100000)
            \<lparr>holdings := [(''VOLV-B.ST'', \<lparr>shares = 100, entry_price = 250\<rparr>)],
             cash := 74937.5\<rparr>)"
    by (simp add: buy_def init_Portfolio_def py_int_def Let_def)
  have r: "reachable 100000
     ((init_Portfolio 100000)
        \<lparr>holdings := [(''VOLV-B.ST'', \<lparr>shares = 100, entry_price = 250\<rparr>)], cash := 74937.5\<rparr>)"
    by (rule r_buy [OF r_init b])
  show ?thesis
    using r drawdown_adjustment_bands [OF r, of "[''VOLV-B.ST'' \<mapsto> 130.625]"]
    by (simp add: get_drawdown_adjustment_def get_total_value_def get_or_zero_def
                  init_Portfolio_def Let_def)
qed
section \<open>Monthly and weekly rebalance dates\<close>

lemma loop_stop:
  "\<not> date_le current end_d \<Longrightarrow> rebalance_loop frequency end_d current dates = Some (Inr dates)"
  by (subst rebalance_loop.simps) simp

lemma loop_monthly:
  "date_le current end_d \<Longrightarrow>
   rebalance_loop ''monthly'' end_d current dates =
     (case (if month current = 12 then date_replace current (year current + 1) 1
            else date_replace current (year current) (month current + 1)) of
        Inl e \<Rightarrow> Some (Inl e)
      | Inr c \<Rightarrow> rebalance_loop ''monthly'' end_d c (dates @ [current]))"
  by (subst rebalance_loop.simps) simp

lemma loop_weekly:
  "date_le current end_d \<Longrightarrow>
   rebalance_loop ''weekly'' end_d current dates =
     (case add_days current 7 of
        Inl e \<Rightarrow> Some (Inl e)
      | Inr c \<Rightarrow> rebalance_loop ''weekly'' end_d c (dates @ [current]))"
  by (subst rebalance_loop.simps) simp

lemma funpow_7: "(f ^^ 7) x = f (f (f (f (f (f (f x))))))"
  by (simp add: numeral_eq_Suc)

text \<open>Weekly dates step by seven days, across the end of a (leap year's) February.\<close>

lemma weekly_dates_example:
  "generate_rebalance_dates (Date 2020 2 20) (Date 2020 3 10) ''weekly'' =
     Some (Inr [Date 2020 2 20, Date 2020 2 27, Date 2020 3 5])"
  by (simp add: generate_rebalance_dates_def loop_stop loop_weekly valid_date_def days_in_month_def
        is_leap_def date_le_def date_lt_def add_days_def next_day_def funpow_7)

text \<open>
  C6. The monthly step keeps the day of the start date: from 2020-01-15 the dates are the
  15th of each month, none of them the first of a month; and from 2020-01-31 the step to
  February raises \<open>ValueError\<close>, so no list of dates is produced at all.
\<close>

theorem monthly_dates_keep_start_day:
  "generate_rebalance_dates (Date 2020 1 15) (Date 2020 3 31) ''monthly'' =
     Some (Inr [Date 2020 1 15, Date 2020 2 15, Date 2020 3 15])
   \<and> generate_rebalance_dates (Date 2020 1 31) (Date 2020 3 31) ''monthly'' = Some (Inl ValueError)"
  by (simp add: generate_rebalance_dates_def loop_stop loop_monthly valid_date_def days_in_month_def
        is_leap_def date_le_def date_lt_def date_replace_def)

section \<open>Annualisation of the volatility\<close>

lemma sqrt_75_12: "sqrt (1 / 75) * sqrt 12 = 2 / 5"
proof -
  have "sqrt (1 / 75) * sqrt 12 = sqrt (1 / 75 * 12)" by (simp only: real_sqrt_mult)
  also have "\<dots> = sqrt ((2 / 5)\<^sup>2)" by (simp add: power2_eq_square)
  also have "\<dots> = 2 / 5" by simp
  finally show ?thesis .
qed

lemma weekly_curve_std: "series_std (pct_change [1000, 1100, 990, 1089]) = Some (sqrt (1 / 75))"
  by (simp add: pct_change_def series_std_def Let_def upt_rec_numeral power2_eq_square)

text \<open>
  C7. The metrics of a run do not depend on its rebalance frequency: the standard
  deviation of the period returns is multiplied by \<open>sqrt 12\<close> whatever the sampling of the
  curve. For the weekly curve above (standard deviation \<open>sqrt (1/75)\<close>) the reported
  volatility is \<open>sqrt (1/75) * sqrt 12 * 100 = 40\<close>, the monthly annualisation.
\<close>

theorem volatility_ignores_frequency:
  "backtest_metrics ''weekly'' curve c p = backtest_metrics ''monthly'' curve c p
   \<and> map_option volatility (backtest_metrics ''weekly'' weekly_curve 1000 (init_Portfolio 1000))
       = Some (Some 40)"
proof -
  have v: "map ep_value weekly_curve = [1000, 1100, 990, 1089]" by (simp add: weekly_curve_def)
  have e: "weekly_curve \<noteq> []" by (simp add: weekly_curve_def)
  have "map_option volatility (backtest_metrics ''weekly'' weekly_curve 1000 (init_Portfolio 1000))
       = Some (Some (sqrt (1 / 75) * sqrt 12 * 100))"
    by (simp add: backtest_metrics_def calculate_performance_metrics_def Let_def weekly_curve_std v e)
  then show ?thesis
    by (simp only: sqrt_75_12) (simp add: backtest_metrics_def)
qed

section \<open>Evaluating the indicators\<close>

lemma upt_from_0: "[0..<numeral n] = 0 # [Suc 0..<numeral n]"
  by (simp add: upt_rec)

lemma upt_from_Suc_0: "[Suc 0..<numeral n] = (if Suc 0 < numeral n then Suc 0 # [2..<numeral n] else [])"
  by (subst upt_rec) (simp add: numeral_2_eq_2)

lemma rolling_mean_nth:
  "i < length xs \<Longrightarrow>
   rolling_mean w xs ! i =
     (if i + 1 < w then None else Some (sum_list (take w (drop (i + 1 - w) xs)) / of_nat w))"
  by (simp add: rolling_mean_def)

lemma length_rolling_mean: "length (rolling_mean w xs) = length xs"
  by (simp add: rolling_mean_def)

lemma tail_rolling_mean:
  "k \<le> length xs \<Longrightarrow>
   tail k (rolling_mean w xs) =
     map (\<lambda>i. if i + 1 < w then None else Some (sum_list (take w (drop (i + 1 - w) xs)) / of_nat w))
         [length xs - k..<length xs]"
  by (simp add: tail_def rolling_mean_def drop_map)

lemma last_rolling_mean:
  "xs \<noteq> [] \<Longrightarrow>
   last (rolling_mean w xs) =
     (if length xs < w then None
      else Some (sum_list (take w (drop (length xs - w) xs)) / of_nat w))"
proof -
  assume ne: "xs \<noteq> []"
  then have n: "0 < length xs" by simp
  have "last (rolling_mean w xs) =
        (\<lambda>i. if i + 1 < w then None
              else Some (sum_list (take w (drop (i + 1 - w) xs)) / of_nat w)) (last [0..<length xs])"
    unfolding rolling_mean_def using n by (subst last_map) simp_all
  also have "last [0..<length xs] = length xs - 1" using n by simp
  finally show ?thesis using n by (auto simp: Suc_diff_le)
qed

lemma length_calculate_ma: "length (calculate_ma xs w) = length xs"
  by (simp add: calculate_ma_def rolling_mean_def)

lemma length_rsi_gain: "length (rsi_gain cs) = length cs"
  by (simp add: rsi_gain_def series_diff_def)

lemma length_rsi_loss: "length (rsi_loss cs) = length cs"
  by (simp add: rsi_loss_def series_diff_def)

lemma last_calculate_rsi:
  assumes "cs \<noteq> []"
  shows "last (calculate_rsi cs p) =
     rsi_of_rs (case (last (rolling_mean p (rsi_gain cs)), last (rolling_mean p (rsi_loss cs))) of
                  (Some a, Some b) \<Rightarrow> np_div a b
                | _ \<Rightarrow> NaN)"
proof -
  have ne: "rolling_mean p (rsi_gain cs) \<noteq> []" "rolling_mean p (rsi_loss cs) \<noteq> []"
    using assms by (simp_all add: rolling_mean_def rsi_gain_def rsi_loss_def series_diff_def)
  have len: "length (rolling_mean p (rsi_gain cs)) = length (rolling_mean p (rsi_loss cs))"
    by (simp add: length_rolling_mean length_rsi_gain length_rsi_loss)
  have z: "zip (rolling_mean p (rsi_gain cs)) (rolling_mean p (rsi_loss cs)) \<noteq> []"
    using ne by (cases "rolling_mean p (rsi_gain cs)"; cases "rolling_mean p (rsi_loss cs)") simp_all
  show ?thesis
    unfolding calculate_rsi_def Let_def
    using z ne len by (simp add: last_map last_zip)
qed

lemma running_max_replicate:
  "running_max a (replicate n c) = (if n = 0 then a else max a c)"
  by (induction n arbitrary: a) (auto simp: max_def)

lemma running_max_append: "running_max a (xs @ ys) = running_max (running_max a xs) ys"
  by (induction xs arbitrary: a) simp_all

lemma ewm_from_replicate: "ewm_from a c (replicate n c) = replicate n c"
  by (induction n) (simp_all add: algebra_simps)

lemma ewm_from_append:
  "ewm_from a p (xs @ ys) = ewm_from a p xs @ ewm_from a (last (p # ewm_from a p xs)) ys"
  by (induction xs arbitrary: p) simp_all

lemma ewm_mean_flat_prefix:
  "0 < n \<Longrightarrow>
   ewm_mean s (replicate n c @ ys) = replicate n c @ ewm_from (2 / (of_nat s + 1)) c ys"
  by (cases n) (simp_all add: ewm_mean_def ewm_from_append ewm_from_replicate)

lemma length_ewm_from: "length (ewm_from a p xs) = length xs"
  by (induction xs arbitrary: p) simp_all

lemma map_diff_zip_replicate:
  "length xs = length ys \<Longrightarrow>
   map (\<lambda>(a, b). a - b) (zip (replicate n c @ xs) (replicate n c @ ys)) =
     replicate n (0::real) @ map (\<lambda>(a, b). a - b) (zip xs ys)"
  by (simp add: zip_replicate)

lemma drop_last_six:
  assumes "length xs = 17"
  shows "drop 11 xs = [xs ! 11, xs ! 12, xs ! 13, xs ! 14, xs ! 15, xs ! 16]"
proof -
  have step: "drop i xs = xs ! i # drop (Suc i) xs" if "i < 17" for i
    using that assms by (simp add: Cons_nth_drop_Suc)
  have "drop 17 xs = []" using assms by simp
  then show ?thesis
    using step [of 11] step [of 12] step [of 13] step [of 14] step [of 15] step [of 16]
    by (simp add: eval_nat_numeral)
qed

section \<open>The RSI when the average loss is zero\<close>

text \<open>
  C9. At a flat series the RSI is not 100: over fifteen equal closes the average loss of the 14-bar window is
  zero, and so is the average gain; the RSI of the last bar is NaN, not 100.
\<close>

theorem rsi_flat_window_is_nan:
  "rolling_mean 14 (rsi_loss [100, 100, 100, 100, 100, 100, 100, 100, 100, 100, 100, 100, 100, 100, 100]) ! 14
     = Some 0
   \<and> calculate_rsi [100, 100, 100, 100, 100, 100, 100, 100, 100, 100, 100, 100, 100, 100, 100] 14 ! 14
     = NaN"
  by (simp add: calculate_rsi_def rolling_mean_def rsi_loss_def rsi_gain_def series_diff_def
        np_div_def Let_def)

text \<open>
  C9, as the code computes it. \<^verbatim>\<open>calculate_rsi\<close> returns a value for every bar and raises
  nothing. At a bar whose average loss over the window is zero the RSI is 100 when the
  average gain is not zero (the quotient is infinite), and NaN when the average gain is
  zero as well.
\<close>

theorem rsi_zero_average_loss:
  assumes "i < length closes" and "rolling_mean period (rsi_loss closes) ! i = Some 0"
  shows "length (calculate_rsi closes period) = length closes
       \<and> calculate_rsi closes period ! i =
           (if rolling_mean period (rsi_gain closes) ! i = Some 0 then NaN else Fin 100)"
proof -
  have full: "\<not> i + 1 < period"
    using assms by (auto simp: rolling_mean_nth length_rsi_loss split: if_splits)
  then obtain g where g: "rolling_mean period (rsi_gain closes) ! i = Some g"
    using assms(1) by (simp add: rolling_mean_nth length_rsi_gain)
  have len: "length (calculate_rsi closes period) = length closes"
    by (simp add: calculate_rsi_def Let_def length_rolling_mean length_rsi_gain length_rsi_loss)
  have "calculate_rsi closes period ! i = rsi_of_rs (np_div g 0)"
    using assms g
    by (simp add: calculate_rsi_def Let_def length_rolling_mean length_rsi_gain length_rsi_loss)
  then show ?thesis using g len by (simp add: np_div_def)
qed

text \<open>The theorem at fifteen closes that rise by one each day: the RSI of the last is 100.\<close>

theorem rsi_zero_average_loss_witness:
  "14 < length [100, 101, 102, 103, 104, 105, 106, 107, 108, 109, 110, 111, 112, 113, 114 :: real]
   \<and> rolling_mean 14 (rsi_loss [100, 101, 102, 103, 104, 105, 106, 107, 108, 109, 110, 111, 112, 113, 114]) ! 14 = Some 0
   \<and> calculate_rsi [100, 101, 102, 103, 104, 105, 106, 107, 108, 109, 110, 111, 112, 113, 114] 14 ! 14 = Fin 100"
proof -
  have l: "rolling_mean 14 (rsi_loss [100, 101, 102, 103, 104, 105, 106, 107, 108, 109, 110, 111, 112, 113, 114]) ! 14 = Some 0"
    by (simp add: rolling_mean_def rsi_loss_def series_diff_def)
  have g: "rolling_mean 14 (rsi_gain [100, 101, 102, 103, 104, 105, 106, 107, 108, 109, 110, 111, 112, 113, 114]) ! 14 = Some 1"
    by (simp add: rolling_mean_def rsi_gain_def series_diff_def)
  show ?thesis
    using rsi_zero_average_loss [of 14 "[100, 101, 102, 103, 104, 105, 106, 107, 108, 109, 110, 111, 112, 113, 114]" 14, OF _ l] l g
    by simp
qed

section \<open>Bounds of the composite score\<close>

lemma round_half_even_ge: "of_int k \<le> y \<Longrightarrow> k \<le> round_half_even y"
proof -
  assume "of_int k \<le> y"
  then have "k \<le> \<lfloor>y\<rfloor>" by (simp add: le_floor_iff)
  then show ?thesis by (auto simp: round_half_even_def Let_def)
qed

lemma round_half_even_le: "y \<le> of_int k \<Longrightarrow> round_half_even y \<le> k"
proof (cases "y = of_int k")
  case True
  then show ?thesis by (simp add: round_half_even_def)
next
  case False
  assume "y \<le> of_int k"
  with False have "y < of_int k" by simp
  then have "\<lfloor>y\<rfloor> < k" by (simp add: floor_less_iff)
  then show ?thesis by (auto simp: round_half_even_def Let_def)
qed

lemma py_round1_ge: "of_int k \<le> x * 10 \<Longrightarrow> of_int k / 10 \<le> py_round1 x"
  using round_half_even_ge [of k "x * 10"] by (simp add: py_round1_def divide_right_mono)

lemma py_round1_le: "x * 10 \<le> of_int k \<Longrightarrow> py_round1 x \<le> of_int k / 10"
  using round_half_even_le [of "x * 10" k] by (simp add: py_round1_def divide_right_mono)

lemma ma_alignment_bounds:
  "0 \<le> fst (ma_alignment a b c) \<and> fst (ma_alignment a b c) \<le> 15"
  by (simp add: ma_alignment_def split: option.splits)

lemma rsi_points_bounds: "- 5 \<le> fst (rsi_points r) \<and> fst (rsi_points r) \<le> 10"
  by (simp add: rsi_points_def)

lemma macd_points_bounds: "- 10 \<le> macd_points mi \<and> macd_points mi \<le> 10"
  by (simp add: macd_points_def)

lemma quality_score_bounds:
  "0 \<le> quality_score (fetch_fundamentals src t) \<and> quality_score (fetch_fundamentals src t) \<le> 25"
proof -
  have r: "0 \<le> revenue_points x \<and> revenue_points x \<le> 8" for x
    by (simp add: revenue_points_def split: option.splits)
  have m: "0 \<le> margin_points x \<and> margin_points x \<le> 6" for x
    by (simp add: margin_points_def split: option.splits)
  have e: "0 \<le> roe_points x \<and> roe_points x \<le> 6" for x
    by (simp add: roe_points_def split: option.splits)
  have d: "0 \<le> debt_points x \<and> debt_points x \<le> 2" for x
    by (simp add: debt_points_def split: option.splits)
  have q: "0 \<le> calculate_quality_score f \<and> calculate_quality_score f \<le> 25" for f
    using r [of "revenue_growth f"] m [of "profit_margin f"] e [of "roe f"] d [of "debt_to_equity f"]
    by (simp add: calculate_quality_score_def)
  show ?thesis
    using q by (simp add: fetch_fundamentals_def Let_def split: option.splits)
qed


lemma score_empty: "Close df = [] \<Longrightarrow> m_score (calculate_stock_score src t df bench incf ind) = 0"
  by (simp add: calculate_stock_score_def Let_def init_metrics_def)

lemma score_no_ma50: "MA50 df = None \<Longrightarrow> m_score (calculate_stock_score src t df bench incf ind) = 0"
  by (simp add: calculate_stock_score_def Let_def init_metrics_def)

lemma score_no_ma200: "MA200 df = None \<Longrightarrow> m_score (calculate_stock_score src t df bench incf ind) = 0"
  by (simp add: calculate_stock_score_def Let_def init_metrics_def split: option.split)

lemma score_ma200_nan:
  "MA200 df = Some c200 \<Longrightarrow> last c200 = None \<Longrightarrow>
   m_score (calculate_stock_score src t df bench incf ind) = 0"
  by (cases "MA50 df") (simp_all add: calculate_stock_score_def Let_def init_metrics_def)

lemma score_below_ma200:
  "MA200 df = Some c200 \<Longrightarrow> last c200 = Some m200 \<Longrightarrow> \<not> last (Close df) > m200 \<Longrightarrow>
   m_score (calculate_stock_score src t df bench incf ind) = 0"
  by (cases "MA50 df") (simp_all add: calculate_stock_score_def Let_def init_metrics_def)

lemma score_gate_passes:
  assumes "Close df \<noteq> []" and "MA50 df = Some c50" and "MA200 df = Some c200"
    and "last c200 = Some m200" and "last (Close df) > m200"
  shows "m_score (calculate_stock_score src t df bench incf ind) =
     py_round1
       (20 + fst (ma_alignment (last c50) (case MA100 df of None \<Rightarrow> None | Some c \<Rightarrow> last c) m200)
        + (if calculate_ma200_slope c200 20 > 0 then 10 else 0)
        - (if crossed_below_ma200 (detect_crossover (Close df) c50 c200 7) then 20 else 0)
        + min 15 (max 0 ((calculate_stock_return (Close df) 60 - fst bench) * 0.5))
        + min 15 (max 0 ((calculate_stock_return (Close df) 120 - snd bench) * 0.5))
        + min 15 (((last (Close df) - m200) / m200) * 100 * 1.5)
        + (if (case get_52_week_high (High df) of None \<Rightarrow> False | Some h \<Rightarrow> h > 0)
           then min 15 (last (Close df) / the (get_52_week_high (High df)) * 15) else 0)
        + (if incf then quality_score (fetch_fundamentals src t) else 0)
        + (if ind
           then fst (rsi_points (last (case RSI df of None \<Rightarrow> calculate_rsi (Close df) 14 | Some c \<Rightarrow> c)))
                + macd_points (detect_macd_crossover
                     (Some (case MACD df of None \<Rightarrow> calculate_macd (Close df) 12 26 9 | Some c \<Rightarrow> c)) 5)
           else 0))"
  using assms
  by (simp add: calculate_stock_score_def Let_def case_prod_beta)


lemma sum_list_pos_all: "ys \<noteq> [] \<Longrightarrow> list_all (\<lambda>c. 0 < c) ys \<Longrightarrow> (0::real) < sum_list ys"
proof (induction ys)
  case Nil
  then show ?case by simp
next
  case (Cons y ys)
  show ?case
  proof (cases "ys = []")
    case True
    with Cons.prems show ?thesis by simp
  next
    case False
    with Cons have "0 < sum_list ys" by simp
    with Cons.prems show ?thesis by simp
  qed
qed


lemma list_all_take_drop: "list_all P xs \<Longrightarrow> list_all P (take a (drop b xs))"
  by (auto simp: list_all_iff dest: in_set_takeD in_set_dropD)

lemma last_ma_positive:
  assumes "list_all (\<lambda>c. 0 < c) xs" and "xs \<noteq> []" and "0 < w"
    and "last (calculate_ma xs w) = Some m"
  shows "0 < m"
proof -
  from assms(2,4) have ge: "\<not> length xs < w"
    and m: "m = sum_list (take w (drop (length xs - w) xs)) / of_nat w"
    by (auto simp: calculate_ma_def last_rolling_mean split: if_splits)
  from ge assms(3) have "take w (drop (length xs - w) xs) \<noteq> []" by auto
  then have "0 < sum_list (take w (drop (length xs - w) xs))"
    using list_all_take_drop [OF assms(1)] by (rule sum_list_pos_all)
  with assms(3) show ?thesis by (simp add: m)
qed


text \<open>
  What does hold of the score: for every ticker, every frame of positive closes with the
  moving averages that \<^verbatim>\<open>calculate_ma50_ma200\<close> adds, all benchmark returns, fundamentals
  and both flags, it is at most 150 and at least -15; with the indicator confirmation
  switched off it is at least 0.
\<close>

lemma composite_score_bounds:
  assumes "positive_prices raw"
  shows "m_score (calculate_stock_score src t (calculate_ma50_ma200 raw) bench incf ind) \<le> 150
       \<and> - 15 \<le> m_score (calculate_stock_score src t (calculate_ma50_ma200 raw) bench incf ind)
       \<and> (\<not> ind \<longrightarrow>
            0 \<le> m_score (calculate_stock_score src t (calculate_ma50_ma200 raw) bench incf ind))"
proof -
  define df where "df = calculate_ma50_ma200 raw"
  define c200 where "c200 = calculate_ma (Close raw) 200"
  define c50 where "c50 = calculate_ma (Close raw) 50"
  have cols: "MA200 df = Some c200" "MA50 df = Some c50" "Close df = Close raw"
    by (simp_all add: df_def c200_def c50_def calculate_ma50_ma200_def)
  consider (zero) "m_score (calculate_stock_score src t df bench incf ind) = 0"
    | (pass) m200 where "Close df \<noteq> []" "last c200 = Some m200" "last (Close df) > m200"
  proof (cases "Close df = []")
    case True
    then show ?thesis using zero score_empty by blast
  next
    case ne: False
    show ?thesis
    proof (cases "last c200")
      case None
      then show ?thesis using zero score_ma200_nan [OF cols(1)] by blast
    next
      case (Some m200)
      then show ?thesis
        using zero pass ne score_below_ma200 [OF cols(1) Some] by blast
    qed
  qed
  then have "m_score (calculate_stock_score src t df bench incf ind) \<le> 150
       \<and> - 15 \<le> m_score (calculate_stock_score src t df bench incf ind)
       \<and> (\<not> ind \<longrightarrow> 0 \<le> m_score (calculate_stock_score src t df bench incf ind))"
  proof cases
    case zero
    show ?thesis unfolding zero by simp
  next
    case pass
    have m200: "0 < m200"
      using last_ma_positive [OF assms [unfolded positive_prices_def], of 200 m200] pass(1,2)
      by (simp add: cols c200_def)
    define price where "price = last (Close df)"
    have price: "m200 < price" using pass(3) by (simp add: price_def)
    define A where "A = fst (ma_alignment (last c50) (case MA100 df of None \<Rightarrow> None | Some c \<Rightarrow> last c) m200)"
    define S where "S = (if calculate_ma200_slope c200 20 > 0 then 10 else 0 :: real)"
    define D where "D = (if crossed_below_ma200 (detect_crossover (Close df) c50 c200 7) then 20 else 0 :: real)"
    define R3 where "R3 = min 15 (max 0 ((calculate_stock_return (Close df) 60 - fst bench) * 0.5))"
    define R6 where "R6 = min 15 (max 0 ((calculate_stock_return (Close df) 120 - snd bench) * 0.5))"
    define DP where "DP = min 15 (((price - m200) / m200) * 100 * 1.5)"
    define HP where "HP = (if (case get_52_week_high (High df) of None \<Rightarrow> False | Some h \<Rightarrow> h > 0)
           then min 15 (price / the (get_52_week_high (High df)) * 15) else 0)"
    define Q where "Q = (if incf then quality_score (fetch_fundamentals src t) else 0)"
    define I where "I = (if ind
           then fst (rsi_points (last (case RSI df of None \<Rightarrow> calculate_rsi (Close df) 14 | Some c \<Rightarrow> c)))
                + macd_points (detect_macd_crossover
                     (Some (case MACD df of None \<Rightarrow> calculate_macd (Close df) 12 26 9 | Some c \<Rightarrow> c)) 5)
           else 0)"
    have score: "m_score (calculate_stock_score src t df bench incf ind) =
        py_round1 (20 + A + S - D + R3 + R6 + DP + HP + Q + I)"
      unfolding A_def S_def D_def R3_def R6_def DP_def HP_def Q_def I_def price_def
      by (rule score_gate_passes [OF pass(1) cols(2) cols(1) pass(2) pass(3)])
    have A: "0 \<le> A" "A \<le> 15" using ma_alignment_bounds by (simp_all add: A_def)
    have S: "0 \<le> S" "S \<le> 10" by (simp_all add: S_def)
    have D: "0 \<le> D" "D \<le> 20" by (simp_all add: D_def)
    have R3: "0 \<le> R3" "R3 \<le> 15" by (simp_all add: R3_def)
    have R6: "0 \<le> R6" "R6 \<le> 15" by (simp_all add: R6_def)
    have "0 \<le> ((price - m200) / m200) * 100 * 1.5" using m200 price by simp
    then have DP: "0 \<le> DP" "DP \<le> 15" unfolding DP_def by (simp_all only: min.bounded_iff min.cobounded1) simp_all
    have HP: "0 \<le> HP" "HP \<le> 15"
      using m200 price by (auto simp: HP_def split: option.splits)
    have Q: "0 \<le> Q" "Q \<le> 25" using quality_score_bounds [of src t] by (simp_all add: Q_def)
    have I: "- 15 \<le> I" "I \<le> 20" "\<not> ind \<Longrightarrow> I = 0"
      using rsi_points_bounds
              [of "last (case RSI df of None \<Rightarrow> calculate_rsi (Close df) 14 | Some c \<Rightarrow> c)"]
            macd_points_bounds
              [of "detect_macd_crossover
                     (Some (case MACD df of None \<Rightarrow> calculate_macd (Close df) 12 26 9 | Some c \<Rightarrow> c)) 5"]
      by (simp_all add: I_def)
    have up: "py_round1 (20 + A + S - D + R3 + R6 + DP + HP + Q + I) \<le> 150"
      using py_round1_le [of "20 + A + S - D + R3 + R6 + DP + HP + Q + I" 1500]
            A S D R3 R6 DP HP Q I(1,2) by simp
    have lo: "- 15 \<le> py_round1 (20 + A + S - D + R3 + R6 + DP + HP + Q + I)"
      using py_round1_ge [of "- 150" "20 + A + S - D + R3 + R6 + DP + HP + Q + I"]
            A S D R3 R6 DP HP Q I(1,2) by simp
    have lo0: "0 \<le> py_round1 (20 + A + S - D + R3 + R6 + DP + HP + Q + I)" if "\<not> ind"
      using py_round1_ge [of 0 "20 + A + S - D + R3 + R6 + DP + HP + Q + I"]
            A S D R3 R6 DP HP Q I(3) [OF that] by simp
    show ?thesis unfolding score using up lo lo0 by blast
  qed
  then show ?thesis unfolding df_def .
qed

section \<open>The score of the example series\<close>

lemma recovery_len: "length recovery_closes = 210" "recovery_closes \<noteq> []"
  by (simp_all add: recovery_closes_def recovery_tail_def)

lemma recovery_ma200_tail:
  "tail 8 (calculate_ma recovery_closes 200) =
     [Some (9983 / 100), Some (4993 / 50), Some (19977 / 200), Some (19979 / 200),
      Some (19979 / 200), Some (9989 / 100), Some (19977 / 200), Some (19977 / 200)]"
  by (simp add: calculate_ma_def tail_rolling_mean recovery_len)
     (simp add: recovery_closes_def recovery_tail_def sum_list_replicate)

lemma recovery_close_tail: "tail 8 recovery_closes = [107, 106, 105, 102, 100, 99, 99, 100]"
  by (simp add: tail_def recovery_closes_def recovery_tail_def)

lemma recovery_ma_last:
  "last (calculate_ma recovery_closes 200) = Some (19977 / 200)"
  "last (calculate_ma recovery_closes 100) = Some (9977 / 100)"
  "last (calculate_ma recovery_closes 50) = Some (4977 / 50)"
  by (simp_all add: calculate_ma_def last_rolling_mean recovery_len)
     (simp_all add: recovery_closes_def recovery_tail_def sum_list_replicate)

lemma recovery_last: "last recovery_closes = 100"
  by (simp add: recovery_closes_def recovery_tail_def)

lemma recovery_crossover:
  "crossed_below_ma200
     (detect_crossover recovery_closes (calculate_ma recovery_closes 50) (calculate_ma recovery_closes 200) 7)"
  by (simp add: detect_crossover_def Let_def recovery_len recovery_ma200_tail recovery_close_tail
        upt_from_0 upt_from_Suc_0)

lemma recovery_slope: "calculate_ma200_slope (calculate_ma recovery_closes 200) 20 = 0"
proof -
  have "hd (tail 20 (calculate_ma recovery_closes 200)) = None"
    by (simp add: calculate_ma_def tail_rolling_mean recovery_len)
  then show ?thesis
    by (simp add: calculate_ma200_slope_def Let_def)
qed

lemma recovery_returns:
  "calculate_stock_return recovery_closes 60 = 0" "calculate_stock_return recovery_closes 120 = 0"
  by (simp_all add: calculate_stock_return_def Let_def recovery_len recovery_last)
     (simp_all add: recovery_closes_def nth_append)

lemma recovery_high: "get_52_week_high (High recovery_frame) = Some 200"
  by (simp add: get_52_week_high_def series_max_def recovery_frame_def recovery_tail_def
        running_max_replicate running_max_append)

lemma recovery_gain_tail:
  "drop 196 (rsi_gain recovery_closes) = [4, 6, 6, 3, 3, 1, 0, 0, 0, 0, 0, 0, 0, 1]"
  by (simp add: rsi_gain_def series_diff_def drop_map recovery_len)
     (simp add: recovery_closes_def recovery_tail_def nth_append)

lemma recovery_loss_tail:
  "drop 196 (rsi_loss recovery_closes) = [0, 0, 0, 0, 0, 0, 1, 1, 1, 3, 2, 1, 0, 0]"
  by (simp add: rsi_loss_def series_diff_def drop_map recovery_len)
     (simp add: recovery_closes_def recovery_tail_def nth_append)

lemma recovery_avg_gain: "last (rolling_mean 14 (rsi_gain recovery_closes)) = Some (24 / 14)"
proof -
  have "rsi_gain recovery_closes \<noteq> []" using length_rsi_gain [of recovery_closes] recovery_len by auto
  then show ?thesis
    by (simp add: last_rolling_mean length_rsi_gain recovery_len recovery_gain_tail)
qed

lemma recovery_avg_loss: "last (rolling_mean 14 (rsi_loss recovery_closes)) = Some (9 / 14)"
proof -
  have "rsi_loss recovery_closes \<noteq> []" using length_rsi_loss [of recovery_closes] recovery_len by auto
  then show ?thesis
    by (simp add: last_rolling_mean length_rsi_loss recovery_len recovery_loss_tail)
qed

lemma recovery_rsi: "last (calculate_rsi recovery_closes 14) = Fin (800 / 11)"
  by (simp add: last_calculate_rsi recovery_len recovery_avg_gain recovery_avg_loss np_div_def)

lemma recovery_macd:
  "calculate_macd recovery_closes 12 26 9 =
     (replicate 193 0 @ recovery_macd_tail,
      replicate 193 0 @ ewm_from (1 / 5) 0 recovery_macd_tail,
      replicate 193 0 @ map (\<lambda>(a, b). a - b) (zip recovery_macd_tail (ewm_from (1 / 5) 0 recovery_macd_tail)))"
proof -
  have e12: "ewm_mean 12 recovery_closes = replicate 193 100 @ ewm_from (2 / 13) 100 recovery_tail"
    unfolding recovery_closes_def by (simp add: ewm_mean_flat_prefix)
  have e26: "ewm_mean 26 recovery_closes = replicate 193 100 @ ewm_from (2 / 27) 100 recovery_tail"
    unfolding recovery_closes_def by (simp add: ewm_mean_flat_prefix)
  have m: "map (\<lambda>(a, b). a - b) (zip (ewm_mean 12 recovery_closes) (ewm_mean 26 recovery_closes)) =
           replicate 193 0 @ recovery_macd_tail"
    unfolding e12 e26 recovery_macd_tail_def by (rule map_diff_zip_replicate) (simp add: length_ewm_from)
  have s: "ewm_mean 9 (replicate 193 0 @ recovery_macd_tail) =
           replicate 193 0 @ ewm_from (1 / 5) 0 recovery_macd_tail"
    by (simp add: ewm_mean_flat_prefix)
  have h: "map (\<lambda>(a, b). a - b)
             (zip (replicate 193 0 @ recovery_macd_tail) (replicate 193 0 @ ewm_from (1 / 5) 0 recovery_macd_tail)) =
           replicate 193 0 @ map (\<lambda>(a, b). a - b) (zip recovery_macd_tail (ewm_from (1 / 5) 0 recovery_macd_tail))"
    by (rule map_diff_zip_replicate) (simp add: length_ewm_from)
  show ?thesis
    unfolding calculate_macd_def Let_def m s h ..
qed

lemma recovery_macd_info:
  "detect_macd_crossover (Some (calculate_macd recovery_closes 12 26 9)) 5 =
     \<lparr>bullish_crossover = False, bearish_crossover = True,
      macd_positive = True, histogram_rising = False\<rparr>"
proof -
  define M where "M = recovery_macd_tail"
  define S where "S = ewm_from (1 / 5) 0 recovery_macd_tail"
  have len: "length M = 17" "length S = 17"
    by (simp_all add: M_def S_def recovery_macd_tail_def length_ewm_from recovery_tail_def)
  have ev: "map (\<lambda>(m, s). (m < s, s < m)) (drop 11 (zip M S)) =
        [(False, True), (False, True), (False, True), (False, True), (True, False), (True, False)]
      \<and> 0 < M ! 16 \<and> M ! 16 - S ! 16 < M ! 15 - S ! 15"
    by (simp add: M_def S_def recovery_macd_tail_def recovery_tail_def)
  have dz: "drop 11 (zip M S) = [(M ! 11, S ! 11), (M ! 12, S ! 12), (M ! 13, S ! 13),
        (M ! 14, S ! 14), (M ! 15, S ! 15), (M ! 16, S ! 16)]"
    using drop_last_six [of "zip M S"] by (simp add: len)
  have s11: "S ! 11 < M ! 11" and s12: "S ! 12 < M ! 12" and s13: "S ! 13 < M ! 13"
    and s14: "S ! 14 < M ! 14" and s15: "M ! 15 < S ! 15" and s16: "M ! 16 < S ! 16"
    and pos: "0 < M ! 16" and fall: "M ! 16 - S ! 16 < M ! 15 - S ! 15"
    using ev unfolding dz by simp_all
  have dM: "tail 6 (replicate 193 0 @ M) = [M ! 11, M ! 12, M ! 13, M ! 14, M ! 15, M ! 16]"
    using drop_last_six [OF len(1)] by (simp add: tail_def len)
  have dS: "tail 6 (replicate 193 0 @ S) = [S ! 11, S ! 12, S ! 13, S ! 14, S ! 15, S ! 16]"
    using drop_last_six [OF len(2)] by (simp add: tail_def len)
  have lz: "length (map (\<lambda>(a, b). a - b) (zip M S)) = 17" by (simp add: len)
  have dH: "tail 6 (replicate 193 0 @ map (\<lambda>(a, b). a - b) (zip M S)) =
        [M ! 11 - S ! 11, M ! 12 - S ! 12, M ! 13 - S ! 13, M ! 14 - S ! 14,
         M ! 15 - S ! 15, M ! 16 - S ! 16]"
    using drop_last_six [OF lz] by (simp add: tail_def len)
  have cols: "calculate_macd recovery_closes 12 26 9 =
     (replicate 193 0 @ M, replicate 193 0 @ S,
      replicate 193 0 @ map (\<lambda>(a, b). a - b) (zip M S))"
    by (simp add: recovery_macd M_def S_def)
  have t3: "tail 3 [M ! 11 - S ! 11, M ! 12 - S ! 12, M ! 13 - S ! 13, M ! 14 - S ! 14,
         M ! 15 - S ! 15, M ! 16 - S ! 16] = [M ! 14 - S ! 14, M ! 15 - S ! 15, M ! 16 - S ! 16]"
    by (simp add: tail_def)
  show ?thesis
    using s11 s12 s13 s14 s15 s16 pos fall
    by (simp add: cols detect_macd_crossover_def Let_def dM dS dH t3 len upt_from_0 upt_from_Suc_0)
qed

lemma recovery_frame_columns:
  "Close (calculate_ma50_ma200 recovery_frame) = recovery_closes"
  "High (calculate_ma50_ma200 recovery_frame) = High recovery_frame"
  "MA50 (calculate_ma50_ma200 recovery_frame) = Some (calculate_ma recovery_closes 50)"
  "MA100 (calculate_ma50_ma200 recovery_frame) = Some (calculate_ma recovery_closes 100)"
  "MA200 (calculate_ma50_ma200 recovery_frame) = Some (calculate_ma recovery_closes 200)"
  "RSI (calculate_ma50_ma200 recovery_frame) = None"
  "MACD (calculate_ma50_ma200 recovery_frame) = None"
  by (simp_all add: calculate_ma50_ma200_def recovery_frame_def)

lemma recovery_gate: "last (Close (calculate_ma50_ma200 recovery_frame)) > 19977 / 200"
  by (simp add: recovery_frame_columns recovery_last)

text \<open>
  With the indicator confirmation on, the example collects 20 for the gate, loses 20 for
  the cross below the average, gets 1150/6659 for the distance and 7.5 for the high, loses
  5 for an RSI of 72.7 and 10 for the bearish MACD cross, and gets 4 for a positive MACD:
  -3.327..., rounded to -3.3. Without the indicators it is 7.7.
\<close>

lemma recovery_score_with_indicators:
  "m_score (calculate_stock_score no_fundamentals ''RECO.ST''
              (calculate_ma50_ma200 recovery_frame) (0, 0) False True) = - 3.3"
proof -
  have "m_score (calculate_stock_score no_fundamentals ''RECO.ST''
              (calculate_ma50_ma200 recovery_frame) (0, 0) False True)
        = py_round1 (- 44313 / 13318)"
    by (subst score_gate_passes
              [OF _ recovery_frame_columns(3) recovery_frame_columns(5) recovery_ma_last(1) recovery_gate])
       (simp_all add: recovery_frame_columns recovery_len recovery_ma_last recovery_last
          ma_alignment_def recovery_slope recovery_crossover recovery_returns recovery_high
          recovery_rsi rsi_points_def recovery_macd_info macd_points_def)
  also have "\<dots> = - 3.3"
    by (simp add: py_round1_def round_half_even_def Let_def)
  finally show ?thesis .
qed

lemma recovery_score_without_indicators:
  "m_score (calculate_stock_score no_fundamentals ''RECO.ST''
              (calculate_ma50_ma200 recovery_frame) (0, 0) False False) = 7.7"
proof -
  have "m_score (calculate_stock_score no_fundamentals ''RECO.ST''
              (calculate_ma50_ma200 recovery_frame) (0, 0) False False)
        = py_round1 (102185 / 13318)"
    by (subst score_gate_passes
              [OF _ recovery_frame_columns(3) recovery_frame_columns(5) recovery_ma_last(1) recovery_gate])
       (simp_all add: recovery_frame_columns recovery_len recovery_ma_last recovery_last
          ma_alignment_def recovery_slope recovery_crossover recovery_returns recovery_high)
  also have "\<dots> = 7.7"
    by (simp add: py_round1_def round_half_even_def Let_def)
  finally show ?thesis .
qed

lemma recovery_positive: "positive_prices recovery_frame"
  by (simp add: positive_prices_def recovery_frame_def recovery_closes_def recovery_tail_def
        list_all_iff)

text \<open>
  C3. On the example series, with the indicator confirmation on, the composite score is
  -3.3: below the range from 0 to 150 that the docstring of \<^verbatim>\<open>calculate_stock_score\<close>
  gives.
\<close>

theorem composite_score_negative:
  "m_score (calculate_stock_score no_fundamentals ''RECO.ST''
              (calculate_ma50_ma200 recovery_frame) (0, 0) False True) = - 3.3
   \<and> \<not> (0 \<le> m_score (calculate_stock_score no_fundamentals ''RECO.ST''
                        (calculate_ma50_ma200 recovery_frame) (0, 0) False True))"
  by (simp add: recovery_score_with_indicators)

text \<open>The bounds at the example series, with the indicators and without them.\<close>

lemma composite_score_bounds_example:
  "positive_prices recovery_frame
   \<and> m_score (calculate_stock_score no_fundamentals ''RECO.ST''
                (calculate_ma50_ma200 recovery_frame) (0, 0) False True) = - 3.3
   \<and> - 15 \<le> m_score (calculate_stock_score no_fundamentals ''RECO.ST''
                       (calculate_ma50_ma200 recovery_frame) (0, 0) False True)
   \<and> m_score (calculate_stock_score no_fundamentals ''RECO.ST''
                (calculate_ma50_ma200 recovery_frame) (0, 0) False True) \<le> 150
   \<and> 0 \<le> m_score (calculate_stock_score no_fundamentals ''RECO.ST''
                    (calculate_ma50_ma200 recovery_frame) (0, 0) False False)"
  using composite_score_bounds [OF recovery_positive, of no_fundamentals "''RECO.ST''" "(0, 0)" False True]
        composite_score_bounds [OF recovery_positive, of no_fundamentals "''RECO.ST''" "(0, 0)" False False]
        recovery_positive recovery_score_with_indicators
  by simp

section \<open>Lookahead in the screening pass\<close>

lemma filter_rows_append:
  "length k1 = length xs \<Longrightarrow>
   filter_rows (k1 @ k2) (xs @ ys) = filter_rows k1 xs @ filter_rows k2 ys"
  by (simp add: filter_rows_def)

lemma filter_rows_all_true: "length xs = n \<Longrightarrow> filter_rows (replicate n True) xs = xs"
proof -
  assume "length xs = n"
  then have "zip (replicate n True) xs = map (\<lambda>x. (True, x)) xs"
    by (induction xs arbitrary: n) auto
  then show ?thesis by (simp add: filter_rows_def o_def)
qed

lemma recovery_date_visible:
  assumes "i < 210"
  shows "date_le (Date 2023 (Suc (i div 28)) (Suc (i mod 28))) recovery_as_of"
proof (cases "i < 196")
  case True
  then have "i div 28 < 7" by (simp add: div_less_iff_less_mult)
  then show ?thesis by (simp add: date_le_def date_lt_def recovery_as_of_def)
next
  case False
  define j where "j = i - 196"
  with False assms have j: "i = 196 + j" "j < 14" by simp_all
  have "i = j + 7 * 28" using j by simp
  then have "i div 28 = 7 + j div 28" "i mod 28 = j mod 28"
    by (simp_all only: div_mult_self1 mod_mult_self1)
  with j have "i div 28 = 7" "i mod 28 = j" by simp_all
  with j show ?thesis by (auto simp: date_le_def date_lt_def recovery_as_of_def)
qed

lemma recovery_index_visible:
  "map (\<lambda>d. date_le d recovery_as_of) recovery_index = replicate 210 True"
  by (rule nth_equalityI) (simp_all add: recovery_index_def recovery_date_visible)

lemma recovery_lengths:
  "length recovery_index = 210" "length recovery_closes = 210"
  "length (High recovery_frame) = 210" "length (Low recovery_frame) = 210"
  by (simp_all add: recovery_index_def recovery_closes_def recovery_frame_def recovery_tail_def)

lemma rows_upto_recovery: "rows_upto recovery_as_of recovery_frame = recovery_frame"
  by (simp add: rows_upto_def Let_def recovery_frame_def recovery_index_visible
        filter_rows_all_true recovery_lengths [unfolded recovery_frame_def, simplified])

lemma rows_upto_later: "rows_upto recovery_as_of later_frame = recovery_frame"
proof -
  have d: "date_le (Date 2023 8 15) recovery_as_of = False"
          "date_le (Date 2023 8 16) recovery_as_of = False"
    by (simp_all add: date_le_def date_lt_def recovery_as_of_def)
  have f: "filter_rows (replicate 210 True @ [False, False]) (xs @ [a, b]) = xs"
    if "length xs = 210" for xs :: "'a list" and a b
    using that by (simp add: filter_rows_append filter_rows_all_true) (simp add: filter_rows_def)
  have cols: "MA50 recovery_frame = None" "MA100 recovery_frame = None" "MA200 recovery_frame = None"
    "RSI recovery_frame = None" "MACD recovery_frame = None"
    "index recovery_frame = recovery_index" "Close recovery_frame = recovery_closes"
    by (simp_all add: recovery_frame_def)
  have "rows_upto recovery_as_of later_frame =
        \<lparr>index = recovery_index, High = High recovery_frame, Low = Low recovery_frame,
         Close = recovery_closes, MA50 = None, MA100 = None, MA200 = None, RSI = None, MACD = None\<rparr>"
    unfolding rows_upto_def Let_def later_frame_def
    by (simp add: d f recovery_lengths recovery_index_visible cols)
  also have "\<dots> = recovery_frame"
    by (simp add: recovery_frame_def)
  finally show ?thesis .
qed

lemma snapshot_then:
  "fetch_historical_snapshot provider_then [''RECO.ST''] recovery_as_of = [(''RECO.ST'', recovery_frame)]"
proof -
  have "Close recovery_frame = recovery_closes" by (simp add: recovery_frame_def)
  then show ?thesis
    by (simp add: fetch_historical_snapshot_def fetch_stock_data_def provider_then_def
          rows_upto_recovery recovery_len)
qed

lemma snapshot_later:
  "fetch_historical_snapshot provider_later [''RECO.ST''] recovery_as_of = [(''RECO.ST'', recovery_frame)]"
proof -
  have "Close recovery_frame = recovery_closes" by (simp add: recovery_frame_def)
  moreover have "Close later_frame \<noteq> []" by (simp add: later_frame_def recovery_len)
  ultimately show ?thesis
    by (simp add: fetch_historical_snapshot_def fetch_stock_data_def provider_later_def
          rows_upto_later recovery_len)
qed

lemma distance_gate_passes:
  assumes "Close df \<noteq> []" and "MA50 df = Some c50" and "MA200 df = Some c200"
    and "last c200 = Some m200" and "last (Close df) > m200"
  shows "m_distance_ma200 (calculate_stock_score src t df bench incf ind) =
           ((last (Close df) - m200) / m200) * 100"
  using assms
  by (simp add: calculate_stock_score_def Let_def case_prod_beta)

lemma recovery_score_screening:
  "m_score (calculate_stock_score src t (calculate_ma50_ma200 recovery_frame) (0, 0) True False)
     = py_round1 (102185 / 13318 + quality_score (fetch_fundamentals src t))"
  by (subst score_gate_passes
            [OF _ recovery_frame_columns(3) recovery_frame_columns(5) recovery_ma_last(1) recovery_gate])
     (simp_all add: recovery_frame_columns recovery_len recovery_ma_last recovery_last
        ma_alignment_def recovery_slope recovery_crossover recovery_returns recovery_high)

lemma recovery_distance:
  "m_distance_ma200 (calculate_stock_score src t (calculate_ma50_ma200 recovery_frame) (0, 0) True False)
     = 2300 / 19977"
  by (subst distance_gate_passes
            [OF _ recovery_frame_columns(3) recovery_frame_columns(5) recovery_ma_last(1) recovery_gate])
     (simp_all add: recovery_frame_columns recovery_len recovery_last)

lemma quality_then: "quality_score (fetch_fundamentals no_fundamentals t) = 0"
  by (simp add: fetch_fundamentals_def no_fundamentals_def)

lemma quality_later:
  "quality_score (fetch_fundamentals (info provider_later) ''RECO.ST'') = 25"
  by (simp add: fetch_fundamentals_def provider_later_def later_info_def calculate_quality_score_def
        revenue_points_def margin_points_def roe_points_def debt_points_def)

text \<open>
  C1. The two answers of the provider agree on every bar up to 2023-08-14: the later one
  has two more bars, after that date, and the fundamentals reported since. The screening
  pass as of 2023-08-14 scores the stock 7.7 on the first answer and 32.7 on the second:
  the 25 points of the quality score come from the later fundamentals.
\<close>

theorem screening_reads_later_fundamentals:
  "rows_upto recovery_as_of (the (history provider_later ''RECO.ST''))
     = rows_upto recovery_as_of (the (history provider_then ''RECO.ST''))
   \<and> map m_score (screening_pass provider_then [''RECO.ST''] recovery_as_of) = [7.7]
   \<and> map m_score (screening_pass provider_later [''RECO.ST''] recovery_as_of) = [32.7]"
proof -
  have a: "rows_upto recovery_as_of (the (history provider_later ''RECO.ST''))
     = rows_upto recovery_as_of (the (history provider_then ''RECO.ST''))"
    by (simp add: provider_later_def provider_then_def rows_upto_later rows_upto_recovery)
  have omx: "fetch_stock_data provider_then ''^OMX'' = None"
            "fetch_stock_data provider_later ''^OMX'' = None"
    by (simp_all add: fetch_stock_data_def provider_then_def provider_later_def)
  have r1: "py_round1 (102185 / 13318) = 7.7" "py_round1 (435135 / 13318) = 32.7"
    by (simp_all add: py_round1_def round_half_even_def Let_def)
  have i: "info provider_then = no_fundamentals"
    by (simp add: provider_then_def)
  have b: "map m_score (screening_pass provider_then [''RECO.ST''] recovery_as_of) = [7.7]"
    unfolding screening_pass_def snapshot_then screen_stocks_historical_def
    by (simp add: omx Let_def recovery_score_screening recovery_distance i quality_then r1)
  have c: "map m_score (screening_pass provider_later [''RECO.ST''] recovery_as_of) = [32.7]"
    unfolding screening_pass_def snapshot_later screen_stocks_historical_def
    by (simp add: omx Let_def recovery_score_screening recovery_distance quality_later r1)
  show ?thesis using a b c by simp
qed

text \<open>
  The prices do not leak: when two providers give the same frames up to the date, for
  every ticker and for the benchmark, and the same fundamentals, the passes are equal.
\<close>

lemma price_data_has_no_lookahead:
  assumes "\<And>t. map_option (rows_upto d) (fetch_stock_data a t)
              = map_option (rows_upto d) (fetch_stock_data b t)"
    and "info a = info b"
  shows "screening_pass a stocks d = screening_pass b stocks d"
proof -
  have step: "(case fetch_stock_data a t of
                None \<Rightarrow> sd
              | Some df \<Rightarrow>
                  (let df' = rows_upto d df in
                   if length (Close df') \<ge> 200 then AList.update t df' sd else sd))
            = (case fetch_stock_data b t of
                None \<Rightarrow> sd
              | Some df \<Rightarrow>
                  (let df' = rows_upto d df in
                   if length (Close df') \<ge> 200 then AList.update t df' sd else sd))" for t sd
    using assms(1) [of t]
    by (cases "fetch_stock_data a t"; cases "fetch_stock_data b t") (simp_all add: Let_def)
  have snap: "fetch_historical_snapshot a stocks d = fetch_historical_snapshot b stocks d"
    unfolding fetch_historical_snapshot_def by (simp only: step)
  have bench: "(case fetch_stock_data a ''^OMX'' of
               None \<Rightarrow> (0, 0)
             | Some benchmark_data \<Rightarrow>
                 (let bd = rows_upto d benchmark_data
                  in (calculate_return (Close bd) 60, calculate_return (Close bd) 120)))
           = (case fetch_stock_data b ''^OMX'' of
               None \<Rightarrow> (0, 0)
             | Some benchmark_data \<Rightarrow>
                 (let bd = rows_upto d benchmark_data
                  in (calculate_return (Close bd) 60, calculate_return (Close bd) 120)))"
    using assms(1) [of "''^OMX''"]
    by (cases "fetch_stock_data a ''^OMX''"; cases "fetch_stock_data b ''^OMX''")
       (simp_all add: Let_def)
  show ?thesis
    unfolding screening_pass_def screen_stocks_historical_def snap assms(2)
    by (simp only: bench)
qed

end
